theory Spec2Isabelle
  imports Main
begin

section \<open>The line editor of readline/readline.go\<close>

text \<open>
  A shallow embedding of \<^verbatim>\<open>src/readline/readline.go\<close>: the Readline loop with its
  escape decoder, the history navigation helpers and the pager.

  Conventions.
  \<^item> A \<^verbatim>\<open>rune\<close> is a natural number: \<^verbatim>\<open>ReadRune\<close> only returns code points
    \<open>0 .. 0x10FFFF\<close>, and no arithmetic is done on runes.
  \<^item> A Go string holding editor text is the list of its code points. The runes the
    editor holds come from \<^verbatim>\<open>ReadRune\<close>, so \<^verbatim>\<open>[]rune(string(rs))\<close> is \<open>rs\<close>.
  \<^item> Standard input is a list of runes; reading from the empty list is the read
    failure of a closed stream. \<^verbatim>\<open>Terminal.reader\<close> and the pager's own reader both
    draw from standard input, one rune at a time (the read-ahead of \<^verbatim>\<open>bufio\<close> is not
    modelled).
  \<^item> Go's \<^verbatim>\<open>int\<close> is \<open>int\<close>: the pager's offset is bounded by the number of lines
    and the terminal height, far from 64-bit overflow.
\<close>

type_synonym rune = nat
type_synonym runes = "rune list"

subsection \<open>Key codes\<close>

text \<open>
  Modelled from the spec: the key-code constants (\<^verbatim>\<open>CharNull\<close>, \<^verbatim>\<open>KeyUp\<close>, ...) are
  declared in another file of the package, not in readline.go. Section 6 of
  the spec fixes them as the conventional ANSI terminal codes: the control codes are
  Ctrl+letter, the escape introducer is \<open>ESC\<close>, the extended introducer is \<open>[\<close>, the
  arrow keys are \<open>A B C D\<close>, Home and End are \<open>H\<close> and \<open>F\<close>, the delete key is \<open>3\<close>, and
  bracketed paste is \<open>ESC [ 2 0 0 ~\<close> and \<open>ESC [ 2 0 1 ~\<close>.
\<close>

definition CharNull :: rune where "CharNull = 0"
definition CharLineStart :: rune where "CharLineStart = 1"
definition CharBackward :: rune where "CharBackward = 2"
definition CharInterrupt :: rune where "CharInterrupt = 3"
definition CharDelete :: rune where "CharDelete = 4"
definition CharLineEnd :: rune where "CharLineEnd = 5"
definition CharForward :: rune where "CharForward = 6"
definition CharCtrlH :: rune where "CharCtrlH = 8"
definition CharTab :: rune where "CharTab = 9"
definition CharCtrlJ :: rune where "CharCtrlJ = 10"
definition CharKill :: rune where "CharKill = 11"
definition CharCtrlL :: rune where "CharCtrlL = 12"
definition CharEnter :: rune where "CharEnter = 13"
definition CharNext :: rune where "CharNext = 14"
definition CharCtrlO :: rune where "CharCtrlO = 15"
definition CharPrev :: rune where "CharPrev = 16"
definition CharCtrlU :: rune where "CharCtrlU = 21"
definition CharCtrlW :: rune where "CharCtrlW = 23"
definition CharCtrlZ :: rune where "CharCtrlZ = 26"
definition CharEsc :: rune where "CharEsc = 27"
definition CharSpace :: rune where "CharSpace = 32"
definition CharEscapeEx :: rune where "CharEscapeEx = 91"
definition CharBackspace :: rune where "CharBackspace = 127"

definition KeyUp :: rune where "KeyUp = 65"
definition KeyDown :: rune where "KeyDown = 66"
definition KeyRight :: rune where "KeyRight = 67"
definition KeyLeft :: rune where "KeyLeft = 68"
definition MetaEnd :: rune where "MetaEnd = 70"
definition MetaStart :: rune where "MetaStart = 72"
definition KeyDel :: rune where "KeyDel = 51"

definition CharBracketedPaste :: rune where "CharBracketedPaste = 50"
definition CharBracketedPasteStart :: runes where "CharBracketedPasteStart = [48, 48, 126]"
definition CharBracketedPasteEnd :: runes where "CharBracketedPasteEnd = [48, 49, 126]"

lemmas key_defs =
  CharNull_def CharLineStart_def CharBackward_def CharInterrupt_def CharDelete_def
  CharLineEnd_def CharForward_def CharCtrlH_def CharTab_def CharCtrlJ_def CharKill_def
  CharCtrlL_def CharEnter_def CharNext_def CharCtrlO_def CharPrev_def CharCtrlU_def
  CharCtrlW_def CharCtrlZ_def CharEsc_def CharSpace_def CharEscapeEx_def
  CharBackspace_def KeyUp_def KeyDown_def KeyRight_def KeyLeft_def MetaEnd_def
  MetaStart_def KeyDel_def CharBracketedPaste_def CharBracketedPasteStart_def
  CharBracketedPasteEnd_def

subsection \<open>Data\<close>

record Prompt =
  PromptText :: string
  AltPrompt :: string
  Placeholder :: string
  AltPlaceholder :: string
  UseAlt :: bool

definition Prompt_prompt :: "Prompt \<Rightarrow> string" where
  "Prompt_prompt p = (if UseAlt p then AltPrompt p else PromptText p)"

definition Prompt_placeholder :: "Prompt \<Rightarrow> string" where
  "Prompt_placeholder p = (if UseAlt p then AltPlaceholder p else Placeholder p)"

text \<open>The saved terminal settings are an opaque token.\<close>

type_synonym termios = nat

record Terminal =
  rawmode :: bool
  termios :: "termios option"

text \<open>
  Modelled from the spec: the type \<^verbatim>\<open>History\<close> and its methods are declared
  in another file of the package. Section 3 of the spec: an ordered, append-only sequence of submitted
  lines plus a cursor \<open>pos\<close> in \<open>[0, len]\<close>, where \<open>pos = len\<close> means not browsing.
\<close>

record History =
  hBuf :: "runes list"
  hPos :: nat

record Instance =
  Prompt :: Prompt
  Terminal :: Terminal
  History :: History
  Pasting :: bool
  ToolOutput :: string

text \<open>
  Modelled from the spec: the type \<^verbatim>\<open>Buffer\<close> and its methods are declared
  in another file of the package. Section 3 of the spec: the Line is a sequence of code points plus a
  cursor index in \<open>0 .. length\<close>.
\<close>

record Buffer =
  Buf :: runes
  Pos :: nat

datatype error = EOF | ErrInterrupt | Errno nat

text \<open>
  What readline.go takes from outside itself and the spec leaves open:
  \<^item> \<open>RuneWidth\<close>: the number of terminal columns of a code point, from which the
    display width of the line is computed;
  \<^item> \<open>MoveLeftWord\<close>, \<open>MoveRightWord\<close>, \<open>DeleteWord\<close>: the word-wise methods of
    \<^verbatim>\<open>Buffer\<close>, of which the spec only says that they use a whitespace
    classification;
  \<^item> \<open>SetRawMode\<close>: the outcome of enabling raw mode;
  \<^item> \<open>GetSize\<close>: the terminal size \<open>(width, height)\<close>, if it can be determined;
  \<^item> \<open>handleCharCtrlZ\<close>: what the suspend handler returns.
\<close>

record Env =
  RuneWidth :: "rune \<Rightarrow> nat"
  MoveLeftWord :: "Buffer \<Rightarrow> Buffer"
  MoveRightWord :: "Buffer \<Rightarrow> Buffer"
  DeleteWord :: "Buffer \<Rightarrow> Buffer"
  SetRawMode :: "error + termios"
  GetSize :: "(int \<times> int) option"
  handleCharCtrlZ :: "runes \<times> error option"

subsection \<open>The line buffer\<close>

text \<open>
  Modelled from the spec: the methods of \<^verbatim>\<open>Buffer\<close>, after section 4.2 of the spec.
  Each is a no-op at the edge of the line. What a method writes to the terminal is not
  modelled.
\<close>

definition NewBuffer :: Buffer where
  "NewBuffer = \<lparr>Buf = [], Pos = 0\<rparr>"

definition Buffer_IsEmpty :: "Buffer \<Rightarrow> bool" where
  "Buffer_IsEmpty b = (Buf b = [])"

definition Buffer_String :: "Buffer \<Rightarrow> runes" where
  "Buffer_String b = Buf b"

definition Buffer_DisplaySize :: "Env \<Rightarrow> Buffer \<Rightarrow> nat" where
  "Buffer_DisplaySize env b = sum_list (map (RuneWidth env) (Buf b))"

definition Buffer_Add :: "rune \<Rightarrow> Buffer \<Rightarrow> Buffer" where
  "Buffer_Add r b = \<lparr>Buf = take (Pos b) (Buf b) @ r # drop (Pos b) (Buf b), Pos = Pos b + 1\<rparr>"

definition Buffer_Remove :: "Buffer \<Rightarrow> Buffer" where
  "Buffer_Remove b =
     (if 0 < Pos b
      then \<lparr>Buf = take (Pos b - 1) (Buf b) @ drop (Pos b) (Buf b), Pos = Pos b - 1\<rparr>
      else b)"

definition Buffer_Delete :: "Buffer \<Rightarrow> Buffer" where
  "Buffer_Delete b =
     (if Pos b < length (Buf b)
      then b\<lparr>Buf := take (Pos b) (Buf b) @ drop (Pos b + 1) (Buf b)\<rparr>
      else b)"

definition Buffer_MoveLeft :: "Buffer \<Rightarrow> Buffer" where
  "Buffer_MoveLeft b = (if 0 < Pos b then b\<lparr>Pos := Pos b - 1\<rparr> else b)"

definition Buffer_MoveRight :: "Buffer \<Rightarrow> Buffer" where
  "Buffer_MoveRight b = (if Pos b < length (Buf b) then b\<lparr>Pos := Pos b + 1\<rparr> else b)"

definition Buffer_MoveToStart :: "Buffer \<Rightarrow> Buffer" where
  "Buffer_MoveToStart b = b\<lparr>Pos := 0\<rparr>"

definition Buffer_MoveToEnd :: "Buffer \<Rightarrow> Buffer" where
  "Buffer_MoveToEnd b = b\<lparr>Pos := length (Buf b)\<rparr>"

definition Buffer_DeleteRemaining :: "Buffer \<Rightarrow> Buffer" where
  "Buffer_DeleteRemaining b = b\<lparr>Buf := take (Pos b) (Buf b)\<rparr>"

definition Buffer_DeleteBefore :: "Buffer \<Rightarrow> Buffer" where
  "Buffer_DeleteBefore b = \<lparr>Buf = drop (Pos b) (Buf b), Pos = 0\<rparr>"

definition Buffer_Replace :: "runes \<Rightarrow> Buffer \<Rightarrow> Buffer" where
  "Buffer_Replace r b = \<lparr>Buf = r, Pos = length r\<rparr>"

text \<open>Clearing the screen redraws the line; the text and the cursor stay.\<close>

definition Buffer_ClearScreen :: "Buffer \<Rightarrow> Buffer" where
  "Buffer_ClearScreen b = b"

subsection \<open>The history log\<close>

text \<open>
  Modelled from the spec: the methods of \<^verbatim>\<open>History\<close>, after section 4.3 of the spec.
  \<open>History_Add\<close> appends the line and resets \<open>pos = len\<close>. \<open>History_Prev\<close> decrements
  \<open>pos\<close> and returns the entry there; \<open>History_Next\<close> increments \<open>pos\<close> and returns the
  entry there. At \<open>pos = len\<close> there is no entry and the empty line is returned
  (\<open>historyNext\<close> overwrites it with the draft at once). Outside their validity
  conditions (\<open>pos > 0\<close>, \<open>pos < len\<close>), where Readline never calls them, the two leave the
  position as it is.
\<close>

definition History_Size :: "History \<Rightarrow> nat" where
  "History_Size h = length (hBuf h)"

definition History_Get :: "History \<Rightarrow> nat \<Rightarrow> runes" where
  "History_Get h n = (if n < length (hBuf h) then hBuf h ! n else [])"

definition History_Add :: "runes \<Rightarrow> History \<Rightarrow> History" where
  "History_Add s h = \<lparr>hBuf = hBuf h @ [s], hPos = length (hBuf h @ [s])\<rparr>"

definition History_Prev :: "History \<Rightarrow> runes \<times> History" where
  "History_Prev h =
     (let h' = (if 0 < hPos h then h\<lparr>hPos := hPos h - 1\<rparr> else h)
      in (History_Get h' (hPos h'), h'))"

definition History_Next :: "History \<Rightarrow> runes \<times> History" where
  "History_Next h =
     (let h' = (if hPos h < History_Size h then h\<lparr>hPos := hPos h + 1\<rparr> else h)
      in (History_Get h' (hPos h'), h'))"

subsection \<open>The state of one Readline call\<close>

text \<open>
  What Readline itself writes to the terminal, in order. The pager's screen is recorded
  as the list of the offsets it displayed, one for each time it drew the screen.
\<close>

datatype out_event =
    PrintPrompt string
  | PrintPlaceholder string
  | PrintClearToEOL
  | PrintBell
  | PrintNewline
  | PagerScreen "int list"

text \<open>
  The instance \<open>i\<close>, the local variables of the loop (\<^verbatim>\<open>buf\<close>, \<^verbatim>\<open>esc\<close>, \<^verbatim>\<open>escex\<close>,
  \<^verbatim>\<open>metaDel\<close>, \<^verbatim>\<open>currentLineBuf\<close>) and the output written so far.
\<close>

record loop_state =
  inst :: Instance
  buf :: Buffer
  esc :: bool
  escex :: bool
  metaDel :: bool
  currentLineBuf :: runes
  out :: "out_event list"

subsection \<open>History navigation\<close>

definition historyPrev :: "loop_state \<Rightarrow> loop_state" where
  "historyPrev st =
     (let h = History (inst st) in
      if 0 < hPos h then
        (let cur = (if hPos h = History_Size h then Buffer_String (buf st)
                    else currentLineBuf st);
             (line, h') = History_Prev h
         in st\<lparr>inst := (inst st)\<lparr>History := h'\<rparr>,
               buf := Buffer_Replace line (buf st),
               currentLineBuf := cur\<rparr>)
      else st)"

definition historyNext :: "loop_state \<Rightarrow> loop_state" where
  "historyNext st =
     (let h = History (inst st) in
      if hPos h < History_Size h then
        (let (line, h') = History_Next h;
             b = Buffer_Replace line (buf st);
             b' = (if hPos h' = History_Size h' then Buffer_Replace (currentLineBuf st) b
                   else b)
         in st\<lparr>inst := (inst st)\<lparr>History := h'\<rparr>, buf := b'\<rparr>)
      else st)"

subsection \<open>The pager\<close>

text \<open>
  \<^verbatim>\<open>strings.Split(content, "\n")\<close>: the lines of the content. The result is never
  empty: the empty content has one empty line.
\<close>

fun Split_newline :: "string \<Rightarrow> string list" where
  "Split_newline [] = [[]]"
| "Split_newline (c # cs) =
     (if c = CHR 0x0A then [] # Split_newline cs
      else (case Split_newline cs of l # ls \<Rightarrow> (c # l) # ls | [] \<Rightarrow> [[c]]))"

text \<open>
  The scrolling commands of \<^verbatim>\<open>showPager\<close>, for \<open>N = len(lines)\<close> and
  \<open>H = termHeight\<close>. The source writes each of them out twice, once for the plain key
  and once for the arrow or page key.
\<close>

definition line_down :: "int \<Rightarrow> int \<Rightarrow> int \<Rightarrow> int" where
  "line_down N H offset = (if offset < N - H then offset + 1 else offset)"

definition line_up :: "int \<Rightarrow> int" where
  "line_up offset = (if offset > 0 then offset - 1 else offset)"

definition page_down :: "int \<Rightarrow> int \<Rightarrow> int \<Rightarrow> int" where
  "page_down N H offset =
     (let offset1 = offset + H in
      if offset1 > N - H
      then (let offset2 = N - H in if offset2 < 0 then 0 else offset2)
      else offset1)"

definition page_up :: "int \<Rightarrow> int \<Rightarrow> int" where
  "page_up H offset = (let offset1 = offset - H in if offset1 < 0 then 0 else offset1)"

definition go_bottom :: "int \<Rightarrow> int \<Rightarrow> int" where
  "go_bottom N H = (let offset1 = N - H in if offset1 < 0 then 0 else offset1)"

text \<open>
  \<^verbatim>\<open>reader.ReadRune()\<close> where the pager ignores the error: a failed read yields the
  rune 0.
\<close>

definition pager_read :: "runes \<Rightarrow> rune \<times> runes" where
  "pager_read inp = (case inp of [] \<Rightarrow> (0, []) | r # rest \<Rightarrow> (r, rest))"

text \<open>The keys that leave the pager: \<open>q\<close>, \<open>Q\<close>, Ctrl+O and the interrupt code.\<close>

definition pager_quit :: "rune \<Rightarrow> bool" where
  "pager_quit r = (r = 113 \<or> r = 81 \<or> r = CharCtrlO \<or> r = CharInterrupt)"

text \<open>
  One pass through the \<^verbatim>\<open>switch\<close> of the pager for a key that does not leave it: the
  new offset and the input left. The letters are \<open>j = 106\<close>, \<open>k = 107\<close>, space \<open>= 32\<close>,
  \<open>g = 103\<close>, \<open>G = 71\<close>, \<open>[ = 91\<close>, \<open>A = 65\<close>, \<open>B = 66\<close>, \<open>5 = 53\<close>, \<open>6 = 54\<close>.
\<close>

definition pager_key :: "int \<Rightarrow> int \<Rightarrow> int \<Rightarrow> rune \<Rightarrow> runes \<Rightarrow> int \<times> runes" where
  "pager_key N H offset r rest =
     (if r = 106 \<or> r = CharCtrlJ \<or> r = CharEnter then (line_down N H offset, rest)
      else if r = 107 then (line_up offset, rest)
      else if r = 32 \<or> r = CharForward then (page_down N H offset, rest)
      else if r = CharBackward then (page_up H offset, rest)
      else if r = 103 then (0, rest)
      else if r = 71 then (go_bottom N H, rest)
      else if r = CharEsc then
        (let (r2, rest2) = pager_read rest in
         if r2 = 91 then
           (let (r3, rest3) = pager_read rest2 in
            if r3 = 65 then (line_up offset, rest3)
            else if r3 = 66 then (line_down N H offset, rest3)
            else if r3 = 53 then (page_up H offset, snd (pager_read rest3))
            else if r3 = 54 then (page_down N H offset, snd (pager_read rest3))
            else (offset, rest3))
         else (offset, rest2))
      else (offset, rest))"

text \<open>
  The loop of \<^verbatim>\<open>showPager\<close>: it draws the screen at the current offset, reads a key,
  and returns on a read failure or a quit key. The result is the list of the offsets
  drawn and the input left.
\<close>

function pager_loop :: "int \<Rightarrow> int \<Rightarrow> int \<Rightarrow> runes \<Rightarrow> int list \<times> runes" where
  "pager_loop N H offset [] = ([offset], [])"
| "pager_loop N H offset (r # rest) =
     (if pager_quit r then ([offset], rest)
      else (let (tr, fin) = pager_loop N H (fst (pager_key N H offset r rest))
                                       (snd (pager_key N H offset r rest))
            in (offset # tr, fin)))"
  by pat_completeness auto
termination
proof (relation "measure (\<lambda>(N, H, offset, inp). length inp)")
  show "wf (measure (\<lambda>(N, H, offset, inp). length inp))"
    by simp
next
  fix N H offset :: int and r :: rune and rest :: runes
  have rd: "length (snd (pager_read inp)) \<le> length inp" for inp
    by (simp add: pager_read_def split: list.split)
  have a: "length (snd (pager_read rest)) \<le> length rest"
    by (rule rd)
  have b: "length (snd (pager_read (snd (pager_read rest)))) \<le> length rest"
    using rd [of "snd (pager_read rest)"] a by linarith
  have c: "length (snd (pager_read (snd (pager_read (snd (pager_read rest)))))) \<le> length rest"
    using rd [of "snd (pager_read (snd (pager_read rest)))"] b by linarith
  have "length (snd (pager_key N H offset r rest)) \<le> length rest"
    using a b c by (simp add: pager_key_def Let_def split_beta)
  then show "((N, H, fst (pager_key N H offset r rest), snd (pager_key N H offset r rest)),
              (N, H, offset, r # rest)) \<in> measure (\<lambda>(N, H, offset, inp). length inp)"
    by (simp add: split_beta)
qed

text \<open>
  The terminal size: 80 by 24 if it cannot be determined, else the reported width and
  the reported height less the status line. \<^verbatim>\<open>showPager\<close> starts at offset 0. The
  text of the lines it shows, each cut to the width, is not part of the result. The
  source gives the pager a buffered reader of its own on standard input; here the
  pager reads on from the input that Readline has not consumed and hands back what it
  leaves, so input that either reader has read ahead is not told apart.
\<close>

definition termHeight :: "Env \<Rightarrow> int" where
  "termHeight env = (case GetSize env of Some (w, h) \<Rightarrow> h - 1 | None \<Rightarrow> 24)"

definition termWidth :: "Env \<Rightarrow> int" where
  "termWidth env = (case GetSize env of Some (w, h) \<Rightarrow> w | None \<Rightarrow> 80)"

definition showPager :: "Env \<Rightarrow> string \<Rightarrow> runes \<Rightarrow> int list \<times> runes" where
  "showPager env content stdin =
     pager_loop (int (length (Split_newline content))) (termHeight env) 0 stdin"

subsection \<open>One iteration of the Readline loop\<close>

text \<open>
  An iteration either returns from Readline (\<open>Done\<close>: the returned pair, the state and
  the input left) or goes on to the next iteration (\<open>Next\<close>).
\<close>

datatype step_result =
    Done "runes \<times> error option" loop_state runes
  | Next loop_state runes

definition showPlaceholder :: "loop_state \<Rightarrow> bool" where
  "showPlaceholder st = (\<not> Pasting (inst st) \<or> UseAlt (Prompt (inst st)))"

definition print_placeholder :: "loop_state \<Rightarrow> loop_state" where
  "print_placeholder st =
     (if Buffer_IsEmpty (buf st) \<and> showPlaceholder st
      then st\<lparr>out := out st @ [PrintPlaceholder (Prompt_placeholder (Prompt (inst st)))]\<rparr>
      else st)"

definition print_clear :: "loop_state \<Rightarrow> loop_state" where
  "print_clear st =
     (if Buffer_IsEmpty (buf st) then st\<lparr>out := out st @ [PrintClearToEOL]\<rparr> else st)"

text \<open>The branch \<^verbatim>\<open>if escex\<close>, after \<^verbatim>\<open>escex = false\<close>.\<close>

definition escex_key :: "Env \<Rightarrow> loop_state \<Rightarrow> rune \<Rightarrow> runes \<Rightarrow> step_result" where
  "escex_key env st r rest =
     (if r = KeyUp then Next (historyPrev st) rest
      else if r = KeyDown then Next (historyNext st) rest
      else if r = KeyLeft then Next (st\<lparr>buf := Buffer_MoveLeft (buf st)\<rparr>) rest
      else if r = KeyRight then Next (st\<lparr>buf := Buffer_MoveRight (buf st)\<rparr>) rest
      else if r = CharBracketedPaste then
        (case rest of
           a # b # c # rest' \<Rightarrow>
             (let code = [a, b, c] in
              if code = CharBracketedPasteStart
              then Next (st\<lparr>inst := (inst st)\<lparr>Pasting := True\<rparr>\<rparr>) rest'
              else if code = CharBracketedPasteEnd
              then Next (st\<lparr>inst := (inst st)\<lparr>Pasting := False\<rparr>\<rparr>) rest'
              else Next st rest')
         | _ \<Rightarrow> Done ([], Some EOF) st [])
      else if r = KeyDel then
        Next ((if Buffer_DisplaySize env (buf st) > 0
               then st\<lparr>buf := Buffer_Delete (buf st)\<rparr> else st)\<lparr>metaDel := True\<rparr>) rest
      else if r = MetaStart then Next (st\<lparr>buf := Buffer_MoveToStart (buf st)\<rparr>) rest
      else if r = MetaEnd then Next (st\<lparr>buf := Buffer_MoveToEnd (buf st)\<rparr>) rest
      else Next st rest)"

text \<open>The branch \<^verbatim>\<open>else if esc\<close>, after \<^verbatim>\<open>esc = false\<close>; \<open>b = 98\<close>, \<open>f = 102\<close>.\<close>

definition esc_key :: "Env \<Rightarrow> loop_state \<Rightarrow> rune \<Rightarrow> runes \<Rightarrow> step_result" where
  "esc_key env st r rest =
     (if r = 98 then Next (st\<lparr>buf := MoveLeftWord env (buf st)\<rparr>) rest
      else if r = 102 then Next (st\<lparr>buf := MoveRightWord env (buf st)\<rparr>) rest
      else if r = CharBackspace then Next (st\<lparr>buf := DeleteWord env (buf st)\<rparr>) rest
      else if r = CharEscapeEx then Next (st\<lparr>escex := True\<rparr>) rest
      else Next st rest)"

text \<open>The main \<^verbatim>\<open>switch r\<close>; the space added for a tab is the rune 32.\<close>

definition normal_key :: "Env \<Rightarrow> loop_state \<Rightarrow> rune \<Rightarrow> runes \<Rightarrow> step_result" where
  "normal_key env st r rest =
     (if r = CharNull then Next st rest
      else if r = CharEsc then Next (st\<lparr>esc := True\<rparr>) rest
      else if r = CharInterrupt then Done ([], Some ErrInterrupt) st rest
      else if r = CharPrev then Next (historyPrev st) rest
      else if r = CharNext then Next (historyNext st) rest
      else if r = CharLineStart then Next (st\<lparr>buf := Buffer_MoveToStart (buf st)\<rparr>) rest
      else if r = CharLineEnd then Next (st\<lparr>buf := Buffer_MoveToEnd (buf st)\<rparr>) rest
      else if r = CharBackward then Next (st\<lparr>buf := Buffer_MoveLeft (buf st)\<rparr>) rest
      else if r = CharForward then Next (st\<lparr>buf := Buffer_MoveRight (buf st)\<rparr>) rest
      else if r = CharBackspace \<or> r = CharCtrlH
        then Next (st\<lparr>buf := Buffer_Remove (buf st)\<rparr>) rest
      else if r = CharTab then Next (st\<lparr>buf := (Buffer_Add 32 ^^ 8) (buf st)\<rparr>) rest
      else if r = CharDelete then
        (if Buffer_DisplaySize env (buf st) > 0
         then Next (st\<lparr>buf := Buffer_Delete (buf st)\<rparr>) rest
         else Done ([], Some EOF) st rest)
      else if r = CharKill then Next (st\<lparr>buf := Buffer_DeleteRemaining (buf st)\<rparr>) rest
      else if r = CharCtrlU then Next (st\<lparr>buf := Buffer_DeleteBefore (buf st)\<rparr>) rest
      else if r = CharCtrlL then Next (st\<lparr>buf := Buffer_ClearScreen (buf st)\<rparr>) rest
      else if r = CharCtrlO then
        (if ToolOutput (inst st) = [] then Next (st\<lparr>out := out st @ [PrintBell]\<rparr>) rest
         else (let (tr, rest') = showPager env (ToolOutput (inst st)) rest
               in Next (st\<lparr>out := out st @ [PagerScreen tr]\<rparr>) rest'))
      else if r = CharCtrlW then Next (st\<lparr>buf := DeleteWord env (buf st)\<rparr>) rest
      else if r = CharCtrlZ then Done (handleCharCtrlZ env) st rest
      else if r = CharEnter \<or> r = CharCtrlJ then
        (let output = Buffer_String (buf st);
             st1 = (if output \<noteq> []
                    then st\<lparr>inst := (inst st)\<lparr>History := History_Add output (History (inst st))\<rparr>\<rparr>
                    else st)
         in Done (output, None)
              (st1\<lparr>buf := Buffer_MoveToEnd (buf st1), out := out st1 @ [PrintNewline]\<rparr>) rest)
      else if metaDel st then Next (st\<lparr>metaDel := False\<rparr>) rest
      else if r \<ge> CharSpace \<or> r = CharEnter \<or> r = CharCtrlJ
        then Next (st\<lparr>buf := Buffer_Add r (buf st)\<rparr>) rest
      else Next st rest)"

text \<open>
  The body of the \<^verbatim>\<open>for\<close> loop: the placeholder, the read, the clearing of the
  placeholder, the read failure, and the three decoder branches.
\<close>

definition step :: "Env \<Rightarrow> loop_state \<Rightarrow> runes \<Rightarrow> step_result" where
  "step env st stdin =
     (let st1 = print_placeholder st in
      case stdin of
        [] \<Rightarrow> Done ([], Some EOF) (print_clear st1) []
      | r # rest \<Rightarrow>
          (let st2 = print_clear st1 in
           if escex st2 then escex_key env (st2\<lparr>escex := False\<rparr>) r rest
           else if esc st2 then esc_key env (st2\<lparr>esc := False\<rparr>) r rest
           else normal_key env st2 r rest))"

subsection \<open>Readline\<close>

text \<open>
  The \<^verbatim>\<open>for\<close> loop of Readline: it runs iterations until one returns. Its result is
  the returned pair, the final state and the input left.
\<close>

function loop :: "Env \<Rightarrow> loop_state \<Rightarrow> runes \<Rightarrow> (runes \<times> error option) \<times> loop_state \<times> runes" where
  "loop env st stdin =
     (case step env st stdin of
        Done res st' rest \<Rightarrow> (res, st', rest)
      | Next st' rest \<Rightarrow> loop env st' rest)"
  by pat_completeness auto
termination
proof (relation "measure (\<lambda>(env, st, stdin). length stdin)")
  show "wf (measure (\<lambda>(env, st, stdin). length stdin))"
    by simp
next
  fix env :: Env and st st' :: loop_state and stdin rest :: runes
  assume nx: "step env st stdin = Next st' rest"
  have pk: "length (snd (pager_key N H offset r inp)) \<le> length inp" for N H offset r inp
  proof -
    have rd: "length (snd (pager_read xs)) \<le> length xs" for xs
      by (simp add: pager_read_def split: list.split)
    have a: "length (snd (pager_read inp)) \<le> length inp"
      by (rule rd)
    have b: "length (snd (pager_read (snd (pager_read inp)))) \<le> length inp"
      using rd [of "snd (pager_read inp)"] a by linarith
    have c: "length (snd (pager_read (snd (pager_read (snd (pager_read inp)))))) \<le> length inp"
      using rd [of "snd (pager_read (snd (pager_read inp)))"] b by linarith
    show ?thesis
      using a b c by (simp add: pager_key_def Let_def split_beta)
  qed
  have pl: "length (snd (pager_loop N H offset inp)) \<le> length inp" for N H offset inp
  proof (induction N H offset inp rule: pager_loop.induct)
    case (1 N H offset)
    then show ?case by simp
  next
    case (2 N H offset r rest)
    show ?case
    proof (cases "pager_quit r")
      case True
      then show ?thesis by simp
    next
      case False
      from 2 [OF False] pk [of N H offset r rest] False show ?thesis
        by (simp add: split_beta)
    qed
  qed
  have sp: "length (snd (showPager env c inp)) \<le> length inp" for c inp
    by (simp add: showPager_def pl)
  have "length rest < length stdin"
  proof (cases stdin)
    case Nil
    with nx show ?thesis by (simp add: step_def Let_def)
  next
    case (Cons r rs)
    have ex: "escex_key env s r rs = Next st' rest \<Longrightarrow> length rest \<le> length rs" for s
      by (auto simp: escex_key_def Let_def split: if_splits list.splits)
    have es: "esc_key env s r rs = Next st' rest \<Longrightarrow> length rest \<le> length rs" for s
      by (auto simp: esc_key_def split: if_splits)
    have no: "normal_key env s r rs = Next st' rest \<Longrightarrow> length rest \<le> length rs" for s
      using sp [of "ToolOutput (inst s)" rs]
      by (auto simp: normal_key_def Let_def split_beta split: if_splits)
    from nx Cons ex es no have "length rest \<le> length rs"
      by (auto simp: step_def Let_def split: if_splits)
    with Cons show ?thesis by simp
  qed
  then show "((env, st', rest), (env, st, stdin)) \<in> measure (\<lambda>(env, st, stdin). length stdin)"
    by simp
qed

text \<open>
  Readline: raw mode is entered unless it is active already (a failure returns at
  once), the prompt is written, and the loop runs on an empty buffer. The deferred
  function runs on every return after it was set up: it leaves raw mode (an error of
  \<^verbatim>\<open>UnsetRawMode\<close> is ignored) and clears the flag. The result is the returned pair,
  the instance, the input left and the output written.
\<close>

definition Readline ::
  "Env \<Rightarrow> Instance \<Rightarrow> runes \<Rightarrow> (runes \<times> error option) \<times> Instance \<times> runes \<times> out_event list" where
  "Readline env i stdin =
     (case (if \<not> rawmode (Terminal i)
            then (case SetRawMode env of
                    Inl err \<Rightarrow> Inl err
                  | Inr t \<Rightarrow> Inr (i\<lparr>Terminal := (Terminal i)\<lparr>rawmode := True, termios := Some t\<rparr>\<rparr>))
            else Inr i) of
        Inl err \<Rightarrow> (([], Some err), i, stdin, [])
      | Inr i1 \<Rightarrow>
          (let prompt = (if Pasting i1 then AltPrompt (Prompt i1) else Prompt_prompt (Prompt i1));
               st0 = \<lparr>inst = i1, buf = NewBuffer, esc = False, escex = False,
                      metaDel = False, currentLineBuf = [], out = [PrintPrompt prompt]\<rparr>;
               (res, st', rest) = loop env st0 stdin;
               i2 = inst st'
           in (res, i2\<lparr>Terminal := (Terminal i2)\<lparr>rawmode := False\<rparr>\<rparr>, rest, out st')))"

subsection \<open>Iterations, and what an iteration prints\<close>

text \<open>
  What the top of an iteration writes before it looks at the key: the placeholder, if
  the line is empty and it is to be shown, and the code that clears it again.
\<close>

definition iteration_prints :: "loop_state \<Rightarrow> out_event list" where
  "iteration_prints st =
     (if Buffer_IsEmpty (buf st) \<and> showPlaceholder st
      then [PrintPlaceholder (Prompt_placeholder (Prompt (inst st)))] else []) @
     (if Buffer_IsEmpty (buf st) then [PrintClearToEOL] else [])"

text \<open>The first \<open>n\<close> iterations of the loop, stopping early where one returns.\<close>

fun iterations :: "nat \<Rightarrow> Env \<Rightarrow> loop_state \<Rightarrow> runes \<Rightarrow> step_result" where
  "iterations 0 env st stdin = Next st stdin"
| "iterations (Suc n) env st stdin =
     (case step env st stdin of
        Done res st' rest \<Rightarrow> Done res st' rest
      | Next st' rest \<Rightarrow> iterations n env st' rest)"

text \<open>The loop, continued from the outcome of some iterations.\<close>

definition finish :: "Env \<Rightarrow> step_result \<Rightarrow> (runes \<times> error option) \<times> loop_state \<times> runes" where
  "finish env sr =
     (case sr of Done res st' rest \<Rightarrow> (res, st', rest) | Next st' rest \<Rightarrow> loop env st' rest)"

subsection \<open>An example session\<close>

text \<open>
  A terminal of 80 columns and 25 rows on which every code point is one column wide,
  and an instance with an empty history and two lines of tool output.
\<close>

definition example_env :: Env where
  "example_env =
     \<lparr>RuneWidth = (\<lambda>r. 1), MoveLeftWord = (\<lambda>b. b), MoveRightWord = (\<lambda>b. b),
      DeleteWord = (\<lambda>b. b), SetRawMode = Inr 0, GetSize = Some (80, 25),
      handleCharCtrlZ = ([], None)\<rparr>"

definition example_instance :: Instance where
  "example_instance =
     \<lparr>Prompt = \<lparr>PromptText = ''>>> '', AltPrompt = ''... '',
                 Placeholder = ''Send a message'', AltPlaceholder = [], UseAlt = False\<rparr>,
      Terminal = \<lparr>rawmode = False, termios = None\<rparr>,
      History = \<lparr>hBuf = [], hPos = 0\<rparr>,
      Pasting = False,
      ToolOutput = [CHR ''a'', CHR 0x0A, CHR ''b'']\<rparr>"

text \<open>The loop state in which \<open>text\<close> has been typed, with the decoder at rest.\<close>

definition example_state :: "runes \<Rightarrow> loop_state" where
  "example_state text =
     \<lparr>inst = example_instance, buf = \<lparr>Buf = text, Pos = length text\<rparr>, esc = False,
      escex = False, metaDel = False, currentLineBuf = [], out = []\<rparr>"

subsection \<open>Notions used by the properties\<close>

text \<open>
  A printable code point: at or above the space and not the backspace code. With the
  decoder at rest these are the code points at or above the space that no \<^verbatim>\<open>case\<close> of the
  main \<^verbatim>\<open>switch\<close> names.
\<close>

definition printable :: "rune \<Rightarrow> bool" where
  "printable r = (CharSpace \<le> r \<and> r \<noteq> CharBackspace)"

text \<open>The \<^verbatim>\<open>case\<close> labels of the main \<^verbatim>\<open>switch\<close>: the command codes.\<close>

definition is_command :: "rune \<Rightarrow> bool" where
  "is_command r =
     (r \<in> {CharNull, CharEsc, CharInterrupt, CharPrev, CharNext, CharLineStart, CharLineEnd,
            CharBackward, CharForward, CharBackspace, CharCtrlH, CharTab, CharDelete, CharKill,
            CharCtrlU, CharCtrlL, CharCtrlO, CharCtrlW, CharCtrlZ, CharEnter, CharCtrlJ})"

text \<open>An iteration returns from Readline with the end-of-input error.\<close>

definition returns_EOF :: "step_result \<Rightarrow> bool" where
  "returns_EOF sr =
     (case sr of Done res st rest \<Rightarrow> snd res = Some EOF | Next st rest \<Rightarrow> False)"

text \<open>
  The view of a state that forgets the paste mode and what was written for the prompt
  and the placeholder.
\<close>

definition prompt_or_placeholder :: "out_event \<Rightarrow> bool" where
  "prompt_or_placeholder e =
     (case e of PrintPrompt s \<Rightarrow> True | PrintPlaceholder s \<Rightarrow> True | _ \<Rightarrow> False)"

definition paste_blind :: "loop_state \<Rightarrow> loop_state" where
  "paste_blind st =
     st\<lparr>inst := (inst st)\<lparr>Pasting := False\<rparr>,
        out := filter (\<lambda>e. \<not> prompt_or_placeholder e) (out st)\<rparr>"

definition paste_blind_result :: "step_result \<Rightarrow> step_result" where
  "paste_blind_result sr =
     (case sr of
        Done res st rest \<Rightarrow> Done res (paste_blind st) rest
      | Next st rest \<Rightarrow> Next (paste_blind st) rest)"

text \<open>The outcome of an iteration, with the flag \<^verbatim>\<open>metaDel\<close> set to \<open>m\<close>.\<close>

definition with_metaDel :: "bool \<Rightarrow> step_result \<Rightarrow> step_result" where
  "with_metaDel m sr =
     (case sr of
        Done res st rest \<Rightarrow> Done res (st\<lparr>metaDel := m\<rparr>) rest
      | Next st rest \<Rightarrow> Next (st\<lparr>metaDel := m\<rparr>) rest)"

text \<open>The example terminal, except that it reports a size of 80 columns and 0 rows.\<close>

definition zero_rows_env :: Env where
  "zero_rows_env = example_env\<lparr>GetSize := Some (80, 0)\<rparr>"

text \<open>
  The example terminal, except that U+200B (zero width space, 8203) occupies no
  column.
\<close>

definition zero_width_env :: Env where
  "zero_width_env = example_env\<lparr>RuneWidth := (\<lambda>r. if r = 8203 then 0 else 1)\<rparr>"

section \<open>Properties\<close>

declare loop.simps [simp del]

subsection \<open>Unfolding one iteration\<close>

lemma redraw: "print_clear (print_placeholder st) = st\<lparr>out := out st @ iteration_prints st\<rparr>"
  by (simp add: print_clear_def print_placeholder_def iteration_prints_def)

lemma step_Cons:
  "step env st (r # rest) =
     (let st2 = st\<lparr>out := out st @ iteration_prints st\<rparr> in
      if escex st then escex_key env (st2\<lparr>escex := False\<rparr>) r rest
      else if esc st then esc_key env (st2\<lparr>esc := False\<rparr>) r rest
      else normal_key env st2 r rest)"
  by (simp add: step_def Let_def redraw)

lemma step_Nil:
  "step env st [] = Done ([], Some EOF) (st\<lparr>out := out st @ iteration_prints st\<rparr>) []"
  by (simp add: step_def Let_def redraw)

lemma loop_iterations: "loop env st stdin = finish env (iterations n env st stdin)"
proof (induction n arbitrary: st stdin)
  case 0
  show ?case by (simp add: finish_def)
next
  case (Suc n)
  show ?case
  proof (cases "step env st stdin")
    case (Done res st' rest)
    then show ?thesis by (simp add: finish_def loop.simps [of env st stdin])
  next
    case (Next st' rest)
    then show ?thesis using Suc [of st' rest] by (simp add: loop.simps [of env st stdin])
  qed
qed

lemma normal_key_Enter:
  assumes "r = CharEnter \<or> r = CharCtrlJ"
  shows "normal_key env s r rest =
     (let output = Buffer_String (buf s);
          st1 = (if output \<noteq> []
                 then s\<lparr>inst := (inst s)\<lparr>History := History_Add output (History (inst s))\<rparr>\<rparr>
                 else s)
      in Done (output, None)
           (st1\<lparr>buf := Buffer_MoveToEnd (buf st1), out := out st1 @ [PrintNewline]\<rparr>) rest)"
  using assms by (auto simp: normal_key_def key_defs)

subsection \<open>Enter\<close>

text \<open>
  C1. Whatever the line buffer holds, an Enter key (Enter or Ctrl+J with the decoder at
  rest) makes the loop return the text of the buffer as it is, also when it is empty,
  with the rest of the input unread. The text is appended to the history, and the
  history position reset to "not browsing", exactly when it is not empty; otherwise the
  history is unchanged.
\<close>

theorem enter_returns_text:
  assumes "\<not> esc st" and "\<not> escex st" and "r = CharEnter \<or> r = CharCtrlJ"
  shows "fst (loop env st (r # rest)) = (Buffer_String (buf st), None) \<and>
         snd (snd (loop env st (r # rest))) = rest \<and>
         History (inst (fst (snd (loop env st (r # rest))))) =
           (if Buffer_String (buf st) = [] then History (inst st)
            else \<lparr>hBuf = hBuf (History (inst st)) @ [Buffer_String (buf st)],
                  hPos = length (hBuf (History (inst st))) + 1\<rparr>)"
  using assms(1,2)
  by (simp add: loop.simps [of env st "r # rest"] step_Cons normal_key_Enter [OF assms(3)]
      Let_def History_Add_def)

theorem enter_returns_text_witness:
  "\<not> esc (example_state [102, 111, 111]) \<and> \<not> escex (example_state [102, 111, 111]) \<and>
   fst (loop example_env (example_state [102, 111, 111]) [CharEnter, 120]) =
     ([102, 111, 111], None) \<and>
   snd (snd (loop example_env (example_state [102, 111, 111]) [CharEnter, 120])) = [120] \<and>
   History (inst (fst (snd (loop example_env (example_state [102, 111, 111]) [CharEnter, 120])))) =
     \<lparr>hBuf = [[102, 111, 111]], hPos = 1\<rparr>"
  using enter_returns_text [of "example_state [102, 111, 111]" CharEnter example_env "[120]"]
  by (simp add: example_state_def example_instance_def Buffer_String_def)

subsection \<open>History navigation\<close>

lemma historyPrev_at:
  assumes "History (inst st) = \<lparr>hBuf = es, hPos = Suc n\<rparr>" and "n < length es"
  shows "historyPrev st =
           st\<lparr>inst := (inst st)\<lparr>History := \<lparr>hBuf = es, hPos = n\<rparr>\<rparr>,
               buf := \<lparr>Buf = es ! n, Pos = length (es ! n)\<rparr>,
               currentLineBuf := (if Suc n = length es then Buffer_String (buf st)
                                  else currentLineBuf st)\<rparr>"
  using assms
  by (simp add: historyPrev_def History_Prev_def History_Size_def History_Get_def
      Buffer_Replace_def Let_def)

lemma historyNext_at:
  assumes "History (inst st) = \<lparr>hBuf = es, hPos = n\<rparr>" and "n < length es"
  shows "historyNext st =
           st\<lparr>inst := (inst st)\<lparr>History := \<lparr>hBuf = es, hPos = Suc n\<rparr>\<rparr>,
               buf := (if Suc n = length es
                       then \<lparr>Buf = currentLineBuf st, Pos = length (currentLineBuf st)\<rparr>
                       else \<lparr>Buf = es ! Suc n, Pos = length (es ! Suc n)\<rparr>)\<rparr>"
  using assms
  by (auto simp add: historyNext_def History_Next_def History_Size_def History_Get_def
      Buffer_Replace_def Let_def)

text \<open>
  C2. With the lines \<open>a\<close>, \<open>b\<close>, \<open>c\<close> recorded in this order (after any earlier
  entries) and any draft in the line buffer, three steps back put \<open>c\<close>, \<open>b\<close>, \<open>a\<close>
  into the buffer, and three steps forward put \<open>b\<close>, \<open>c\<close> and then the draft, with the
  cursor at the end and the history position back at "not browsing". One step back and
  one step forward restore the draft in the same way.
\<close>

theorem history_round_trip:
  fixes start :: loop_state and prior :: History and a b c :: runes
  defines "st \<equiv> start\<lparr>inst := (inst start)\<lparr>History := History_Add c (History_Add b (History_Add a prior))\<rparr>\<rparr>"
  defines "s1 \<equiv> historyPrev st"
  defines "s2 \<equiv> historyPrev s1"
  defines "s3 \<equiv> historyPrev s2"
  defines "s4 \<equiv> historyNext s3"
  defines "s5 \<equiv> historyNext s4"
  defines "s6 \<equiv> historyNext s5"
  shows "buf s1 = \<lparr>Buf = c, Pos = length c\<rparr> \<and>
         buf s2 = \<lparr>Buf = b, Pos = length b\<rparr> \<and>
         buf s3 = \<lparr>Buf = a, Pos = length a\<rparr> \<and>
         buf s4 = \<lparr>Buf = b, Pos = length b\<rparr> \<and>
         buf s5 = \<lparr>Buf = c, Pos = length c\<rparr> \<and>
         buf s6 = \<lparr>Buf = Buffer_String (buf start), Pos = length (Buffer_String (buf start))\<rparr> \<and>
         History (inst s6) = History (inst st) \<and>
         buf (historyNext s1) =
           \<lparr>Buf = Buffer_String (buf start), Pos = length (Buffer_String (buf start))\<rparr> \<and>
         History (inst (historyNext s1)) = History (inst st)"
proof -
  define es where "es = hBuf prior @ [a, b, c]"
  define k where "k = length (hBuf prior)"
  have len: "length es = k + 3" and
       e0: "es ! k = a" and e1: "es ! Suc k = b" and e2: "es ! Suc (Suc k) = c"
    by (simp_all add: es_def k_def nth_append)
  have h: "History (inst st) = \<lparr>hBuf = es, hPos = Suc (Suc (Suc k))\<rparr>"
    by (simp add: st_def History_Add_def es_def k_def)
  have bst: "buf st = buf start"
    by (simp add: st_def)
  have cur: "currentLineBuf s1 = Buffer_String (buf start)"
    and h1: "History (inst s1) = \<lparr>hBuf = es, hPos = Suc (Suc k)\<rparr>"
    and b1: "buf s1 = \<lparr>Buf = c, Pos = length c\<rparr>"
    unfolding s1_def using len e2 bst
    by (simp_all add: historyPrev_at [OF h])
  have c2: "currentLineBuf s2 = Buffer_String (buf start)"
    and h2: "History (inst s2) = \<lparr>hBuf = es, hPos = Suc k\<rparr>"
    and b2: "buf s2 = \<lparr>Buf = b, Pos = length b\<rparr>"
    unfolding s2_def using len e1 cur
    by (simp_all add: historyPrev_at [OF h1])
  have c3: "currentLineBuf s3 = Buffer_String (buf start)"
    and h3: "History (inst s3) = \<lparr>hBuf = es, hPos = k\<rparr>"
    and b3: "buf s3 = \<lparr>Buf = a, Pos = length a\<rparr>"
    unfolding s3_def using len e0 c2
    by (simp_all add: historyPrev_at [OF h2])
  have c4: "currentLineBuf s4 = Buffer_String (buf start)"
    and h4: "History (inst s4) = \<lparr>hBuf = es, hPos = Suc k\<rparr>"
    and b4: "buf s4 = \<lparr>Buf = b, Pos = length b\<rparr>"
    unfolding s4_def using len e1 c3
    by (simp_all add: historyNext_at [OF h3])
  have c5: "currentLineBuf s5 = Buffer_String (buf start)"
    and h5: "History (inst s5) = \<lparr>hBuf = es, hPos = Suc (Suc k)\<rparr>"
    and b5: "buf s5 = \<lparr>Buf = c, Pos = length c\<rparr>"
    unfolding s5_def using len e2 c4
    by (simp_all add: historyNext_at [OF h4])
  have h6: "History (inst s6) = \<lparr>hBuf = es, hPos = Suc (Suc (Suc k))\<rparr>"
    and b6: "buf s6 = \<lparr>Buf = Buffer_String (buf start), Pos = length (Buffer_String (buf start))\<rparr>"
    unfolding s6_def using len c5
    by (simp_all add: historyNext_at [OF h5])
  have h7: "History (inst (historyNext s1)) = \<lparr>hBuf = es, hPos = Suc (Suc (Suc k))\<rparr>"
    and b7: "buf (historyNext s1) =
               \<lparr>Buf = Buffer_String (buf start), Pos = length (Buffer_String (buf start))\<rparr>"
    using len cur
    by (simp_all add: historyNext_at [OF h1])
  show ?thesis
    using b1 b2 b3 b4 b5 b6 b7 h h6 h7 by simp
qed

theorem history_round_trip_example:
  "buf (historyNext (historyPrev
     ((example_state [104, 105])\<lparr>inst := example_instance
        \<lparr>History := History_Add [99] (History_Add [98] (History_Add [97] \<lparr>hBuf = [], hPos = 0\<rparr>))\<rparr>\<rparr>))) =
   \<lparr>Buf = [104, 105], Pos = 2\<rparr>"
  using history_round_trip [where start = "example_state [104, 105]" and a = "[97]" and b = "[98]"
      and c = "[99]" and prior = "\<lparr>hBuf = [], hPos = 0\<rparr>"]
  by (simp add: example_state_def example_instance_def Buffer_String_def)

subsection \<open>Unknown escape sequences\<close>

text \<open>
  C3. With the decoder at rest, the escape introducer followed by a code point that the
  Escape state does not know, or the escape and extended introducers followed by a code
  point that the EscapeExtended state does not know, are consumed and leave the whole
  state as it was (line buffer, cursor, history, draft, paste mode and the decoder flags,
  so the decoder is at rest again); nothing is inserted and the loop goes on. Only the
  placeholder is redrawn.
\<close>

theorem unknown_escape_dropped:
  assumes "\<not> esc st" and "\<not> escex st"
  shows "(r \<notin> {98, 102, CharBackspace, CharEscapeEx} \<longrightarrow>
            iterations 2 env st (CharEsc # r # rest) =
              Next (st\<lparr>out := out st @ iteration_prints st @ iteration_prints st\<rparr>) rest) \<and>
         (r \<notin> {KeyUp, KeyDown, KeyLeft, KeyRight, CharBracketedPaste, KeyDel, MetaStart, MetaEnd} \<longrightarrow>
            iterations 3 env st (CharEsc # CharEscapeEx # r # rest) =
              Next (st\<lparr>out := out st @ iteration_prints st @ iteration_prints st @
                                 iteration_prints st\<rparr>) rest)"
proof -
  have ip: "iteration_prints (s\<lparr>out := x\<rparr>) = iteration_prints s"
       "iteration_prints (s\<lparr>esc := e\<rparr>) = iteration_prints s"
       "iteration_prints (s\<lparr>escex := e\<rparr>) = iteration_prints s" for s x e
    by (simp_all add: iteration_prints_def showPlaceholder_def)
  have n: "normal_key env s CharEsc xs = Next (s\<lparr>esc := True\<rparr>) xs" for s xs
    by (simp add: normal_key_def key_defs)
  have e1: "esc_key env s CharEscapeEx xs = Next (s\<lparr>escex := True\<rparr>) xs" for s xs
    by (simp add: esc_key_def key_defs)
  have e2: "r \<notin> {98, 102, CharBackspace, CharEscapeEx} \<Longrightarrow> esc_key env s r xs = Next s xs" for s xs
    by (simp add: esc_key_def)
  have x: "r \<notin> {KeyUp, KeyDown, KeyLeft, KeyRight, CharBracketedPaste, KeyDel, MetaStart, MetaEnd}
      \<Longrightarrow> escex_key env s r xs = Next s xs" for s xs
    by (simp add: escex_key_def)
  have st: "st\<lparr>esc := False\<rparr> = st" "st\<lparr>escex := False\<rparr> = st"
    using assms by simp_all
  show ?thesis
    using assms
    apply (intro conjI impI)
    apply (simp add: numeral_2_eq_2 step_Cons Let_def n e2 ip)
    apply (simp add: numeral_3_eq_3 step_Cons Let_def n e1 x ip)
    done
qed

theorem unknown_escape_dropped_witness:
  "\<not> esc (example_state [97]) \<and> \<not> escex (example_state [97]) \<and>
   iterations 2 example_env (example_state [97]) [CharEsc, 120, 121] =
     Next (example_state [97]) [121] \<and>
   iterations 3 example_env (example_state [97]) [CharEsc, CharEscapeEx, 120, 121] =
     Next (example_state [97]) [121]"
  using unknown_escape_dropped [of "example_state [97]" 120 example_env "[121]"]
  by (simp add: example_state_def key_defs iteration_prints_def Buffer_IsEmpty_def)

subsection \<open>The pager\<close>

lemma pager_key_bounds:
  assumes "0 \<le> H" and "0 \<le> offset" and "offset \<le> max 0 (N - H)"
  shows "0 \<le> fst (pager_key N H offset r rest) \<and> fst (pager_key N H offset r rest) \<le> max 0 (N - H)"
proof -
  have ld: "0 \<le> line_down N H offset \<and> line_down N H offset \<le> max 0 (N - H)"
    using assms by (auto simp: line_down_def max_def)
  have lu: "0 \<le> line_up offset \<and> line_up offset \<le> max 0 (N - H)"
    using assms by (auto simp: line_up_def max_def)
  have pd: "0 \<le> page_down N H offset \<and> page_down N H offset \<le> max 0 (N - H)"
    using assms by (auto simp: page_down_def Let_def max_def)
  have pu: "0 \<le> page_up H offset \<and> page_up H offset \<le> max 0 (N - H)"
    using assms by (auto simp: page_up_def Let_def max_def)
  have gb: "0 \<le> go_bottom N H \<and> go_bottom N H \<le> max 0 (N - H)"
    by (auto simp: go_bottom_def Let_def max_def)
  have z: "(0::int) \<le> max 0 (N - H)"
    by simp
  show ?thesis
    using ld lu pd pu gb z assms(2,3)
    by (simp add: pager_key_def Let_def split_beta del: max.bounded_iff)
qed

lemma pager_loop_bounds:
  "0 \<le> H \<Longrightarrow> 0 \<le> offset \<Longrightarrow> offset \<le> max 0 (N - H) \<Longrightarrow>
   \<forall>x \<in> set (fst (pager_loop N H offset inp)). 0 \<le> x \<and> x \<le> max 0 (N - H)"
proof (induction N H offset inp rule: pager_loop.induct)
  case (1 N H offset)
  then show ?case by simp
next
  case (2 N H offset r rest)
  show ?case
  proof (cases "pager_quit r")
    case True
    with 2 show ?thesis by simp
  next
    case False
    have kb: "0 \<le> fst (pager_key N H offset r rest) \<and>
              fst (pager_key N H offset r rest) \<le> max 0 (N - H)"
      using pager_key_bounds [OF "2.prems"] .
    have ih: "\<forall>x \<in> set (fst (pager_loop N H (fst (pager_key N H offset r rest))
                 (snd (pager_key N H offset r rest)))). 0 \<le> x \<and> x \<le> max 0 (N - H)"
      using "2.IH" [OF False "2.prems"(1)] kb by blast
    show ?thesis
      using False ih "2.prems"(2,3) by (simp add: split_beta)
  qed
qed

text \<open>
  Where the height of the pager is not negative (the size is unknown, or the terminal
  reports at least one row), every offset the pager displays, from the first screen at
  offset 0 on and after every key, lies in \<open>[0, max(0, N - H)]\<close>, where \<open>N\<close> is the
  number of lines of the content and \<open>H\<close> the height.
\<close>

lemma pager_offset_in_range:
  assumes "0 \<le> termHeight env"
  shows "\<forall>offset \<in> set (fst (showPager env content stdin)).
           0 \<le> offset \<and>
           offset \<le> max 0 (int (length (Split_newline content)) - termHeight env)"
  unfolding showPager_def
  by (rule pager_loop_bounds [OF assms]) simp_all

lemma pager_offset_in_range_example:
  "0 \<le> termHeight (example_env\<lparr>GetSize := Some (80, 4)\<rparr>) \<and>
   list_all (\<lambda>offset. 0 \<le> offset \<and> offset \<le> 2)
     (fst (showPager (example_env\<lparr>GetSize := Some (80, 4)\<rparr>)
        [CHR 0x0A, CHR 0x0A, CHR 0x0A, CHR 0x0A] [32, 106, 107, 71, 2, 27, 91, 66, 113]))"
proof -
  have h: "termHeight (example_env\<lparr>GetSize := Some (80, 4)\<rparr>) = 3"
    by (simp add: termHeight_def)
  have n: "int (length (Split_newline [CHR 0x0A, CHR 0x0A, CHR 0x0A, CHR 0x0A])) = 5"
    by simp
  show ?thesis
    using pager_offset_in_range [of "example_env\<lparr>GetSize := Some (80, 4)\<rparr>"
        "[CHR 0x0A, CHR 0x0A, CHR 0x0A, CHR 0x0A]" "[32, 106, 107, 71, 2, 27, 91, 66, 113]"]
    by (simp only: h n list_all_iff) simp
qed

text \<open>
  C6. The offset of the pager does not stay within \<open>[0, max(0, N - H)]\<close> on a terminal
  that reports zero rows. The height of the pager is then \<open>-1\<close>, the reported height less
  the status line. On one line of content, a page down (space) from the top displays
  the offset \<open>-1\<close>, below 0: the clamp at 0 sits inside the test \<open>offset > N - H\<close>, which
  is not reached. On three lines of content, five page ups (Ctrl+B) display the offsets
  1 to 5, the last above \<open>max(0, N - H) = 4\<close>: subtracting the height adds one line each
  time.
\<close>

theorem pager_offset_out_of_range:
  "termHeight zero_rows_env = - 1 \<and>
   int (length (Split_newline [CHR ''a''])) = 1 \<and>
   fst (showPager zero_rows_env [CHR ''a''] [32, 113]) = [0, - 1] \<and>
   int (length (Split_newline [CHR ''a'', CHR 0x0A, CHR ''b'', CHR 0x0A, CHR ''c''])) = 3 \<and>
   fst (showPager zero_rows_env [CHR ''a'', CHR 0x0A, CHR ''b'', CHR 0x0A, CHR ''c'']
          [2, 2, 2, 2, 2, 113]) = [0, 1, 2, 3, 4, 5]"
  by (simp add: showPager_def termHeight_def zero_rows_env_def example_env_def pager_key_def
      pager_quit_def page_down_def page_up_def key_defs Let_def)

text \<open>
  C7. With the decoder at rest and tool output to show, Ctrl+O runs the pager on the
  input that follows and then goes on with the loop: whatever keys the pager reads and
  at whatever offset it is left, the instance (history, paste mode), the line buffer
  and its cursor, the decoder flags and the draft are as before. Only the output has
  grown, and the input the pager read is gone.
\<close>

theorem pager_is_read_only:
  assumes "\<not> esc st" and "\<not> escex st" and "ToolOutput (inst st) \<noteq> []"
  shows "step env st (CharCtrlO # rest) =
           Next (st\<lparr>out := out st @ iteration_prints st @
                         [PagerScreen (fst (showPager env (ToolOutput (inst st)) rest))]\<rparr>)
                (snd (showPager env (ToolOutput (inst st)) rest))"
  using assms by (simp add: step_Cons Let_def normal_key_def key_defs split_beta)

theorem pager_is_read_only_witness:
  "\<not> esc (example_state [97]) \<and> \<not> escex (example_state [97]) \<and>
   ToolOutput (inst (example_state [97])) \<noteq> [] \<and>
   step example_env (example_state [97]) [CharCtrlO, 106, 113, 120] =
     Next ((example_state [97])\<lparr>out := [PagerScreen [0, 0]]\<rparr>) [120]"
proof -
  have p: "showPager example_env (ToolOutput (inst (example_state [97]))) [106, 113, 120] =
             ([0, 0], [120])"
    by (simp add: showPager_def termHeight_def example_env_def example_state_def
        example_instance_def pager_key_def pager_quit_def line_down_def key_defs)
  show ?thesis
    using pager_is_read_only [of "example_state [97]" example_env "[106, 113, 120]"]
    by (simp add: p) (simp add: example_state_def example_instance_def iteration_prints_def
        Buffer_IsEmpty_def)
qed

subsection \<open>Raw mode\<close>

text \<open>
  C9. However Readline returns (a line, end of input, an interrupt, the result of the
  suspend handler, or the failure to enter raw mode), the raw-mode flag of the terminal
  is false when it returns.
\<close>

theorem raw_mode_released:
  "rawmode (Terminal (fst (snd (Readline env i stdin)))) = False"
  by (simp add: Readline_def Let_def split_beta split: sum.split)

subsection \<open>Paste mode\<close>

lemma paste_blind_fields:
  "buf (paste_blind s) = buf s"
  "esc (paste_blind s) = esc s"
  "escex (paste_blind s) = escex s"
  "metaDel (paste_blind s) = metaDel s"
  "currentLineBuf (paste_blind s) = currentLineBuf s"
  "out (paste_blind s) = filter (\<lambda>e. \<not> prompt_or_placeholder e) (out s)"
  "inst (paste_blind s) = (inst s)\<lparr>Pasting := False\<rparr>"
  by (simp_all add: paste_blind_def)

lemma paste_blind_updates:
  "paste_blind (s\<lparr>buf := b\<rparr>) = (paste_blind s)\<lparr>buf := b\<rparr>"
  "paste_blind (s\<lparr>esc := e\<rparr>) = (paste_blind s)\<lparr>esc := e\<rparr>"
  "paste_blind (s\<lparr>escex := e\<rparr>) = (paste_blind s)\<lparr>escex := e\<rparr>"
  "paste_blind (s\<lparr>metaDel := e\<rparr>) = (paste_blind s)\<lparr>metaDel := e\<rparr>"
  "paste_blind (s\<lparr>currentLineBuf := c\<rparr>) = (paste_blind s)\<lparr>currentLineBuf := c\<rparr>"
  "paste_blind (s\<lparr>out := ev\<rparr>) =
     (paste_blind s)\<lparr>out := filter (\<lambda>e. \<not> prompt_or_placeholder e) ev\<rparr>"
  "paste_blind (s\<lparr>inst := i\<rparr>) = (paste_blind s)\<lparr>inst := i\<lparr>Pasting := False\<rparr>\<rparr>"
  by (simp_all add: paste_blind_def)

lemma paste_blind_idem: "paste_blind (paste_blind s) = paste_blind s"
  by (simp add: paste_blind_def)

lemma blind_historyPrev: "paste_blind (historyPrev (paste_blind s)) = paste_blind (historyPrev s)"
  by (simp add: historyPrev_def Let_def split_beta paste_blind_fields paste_blind_updates
      paste_blind_idem)

lemma blind_historyNext: "paste_blind (historyNext (paste_blind s)) = paste_blind (historyNext s)"
  by (simp add: historyNext_def Let_def split_beta paste_blind_fields paste_blind_updates
      paste_blind_idem)

lemma blind_escex:
  "paste_blind_result (escex_key env (paste_blind s) r rest) = paste_blind_result (escex_key env s r rest)"
  by (simp add: escex_key_def paste_blind_result_def blind_historyPrev blind_historyNext
      paste_blind_fields paste_blind_updates paste_blind_idem Let_def split: list.split)

lemma blind_esc:
  "paste_blind_result (esc_key env (paste_blind s) r rest) = paste_blind_result (esc_key env s r rest)"
  by (simp add: esc_key_def paste_blind_result_def
      paste_blind_fields paste_blind_updates paste_blind_idem)


lemma blind_normal:
  "paste_blind_result (normal_key env (paste_blind s) r rest) = paste_blind_result (normal_key env s r rest)"
  by (simp add: normal_key_def paste_blind_result_def blind_historyPrev blind_historyNext
      paste_blind_fields paste_blind_updates paste_blind_idem Let_def split_beta
      prompt_or_placeholder_def)


lemma blind_prints:
  "filter (\<lambda>e. \<not> prompt_or_placeholder e) (iteration_prints s) =
     (if Buffer_IsEmpty (buf s) then [PrintClearToEOL] else [])"
  by (simp add: iteration_prints_def prompt_or_placeholder_def)

lemma blind_step:
  "paste_blind_result (step env (paste_blind s) stdin) = paste_blind_result (step env s stdin)"
proof (cases stdin)
  case Nil
  then show ?thesis
    by (simp add: step_Nil paste_blind_result_def paste_blind_updates paste_blind_fields
        paste_blind_idem blind_prints)
next
  case (Cons r rest)
  define a where "a = (paste_blind s)\<lparr>out := out (paste_blind s) @ iteration_prints (paste_blind s)\<rparr>"
  define b where "b = s\<lparr>out := out s @ iteration_prints s\<rparr>"
  have ab: "paste_blind a = paste_blind b"
    by (simp add: a_def b_def paste_blind_updates paste_blind_fields paste_blind_idem blind_prints)
  have x: "paste_blind_result (escex_key env (a\<lparr>escex := False\<rparr>) r rest) =
           paste_blind_result (escex_key env (b\<lparr>escex := False\<rparr>) r rest)"
    using blind_escex [of env "a\<lparr>escex := False\<rparr>" r rest]
      blind_escex [of env "b\<lparr>escex := False\<rparr>" r rest] ab
    by (simp add: paste_blind_updates)
  have e: "paste_blind_result (esc_key env (a\<lparr>esc := False\<rparr>) r rest) =
           paste_blind_result (esc_key env (b\<lparr>esc := False\<rparr>) r rest)"
    using blind_esc [of env "a\<lparr>esc := False\<rparr>" r rest]
      blind_esc [of env "b\<lparr>esc := False\<rparr>" r rest] ab
    by (simp add: paste_blind_updates)
  have n: "paste_blind_result (normal_key env a r rest) = paste_blind_result (normal_key env b r rest)"
    using blind_normal [of env a r rest] blind_normal [of env b r rest] ab
    by simp
  have sa: "step env (paste_blind s) (r # rest) =
      (if escex s then escex_key env (a\<lparr>escex := False\<rparr>) r rest
       else if esc s then esc_key env (a\<lparr>esc := False\<rparr>) r rest
       else normal_key env a r rest)"
    by (simp add: step_Cons Let_def a_def paste_blind_fields(2,3))
  have sb: "step env s (r # rest) =
      (if escex s then escex_key env (b\<lparr>escex := False\<rparr>) r rest
       else if esc s then esc_key env (b\<lparr>esc := False\<rparr>) r rest
       else normal_key env b r rest)"
    by (simp add: step_Cons Let_def b_def)
  show ?thesis
    using x e n by (simp add: Cons sa sb)
qed

lemma blind_step_eq:
  assumes "paste_blind a = paste_blind b"
  shows "paste_blind_result (step env a stdin) = paste_blind_result (step env b stdin)"
  using blind_step [of env a stdin] blind_step [of env b stdin] assms by simp

lemma blind_loop:
  "paste_blind a = paste_blind b \<Longrightarrow>
   fst (loop env a stdin) = fst (loop env b stdin) \<and>
   snd (snd (loop env a stdin)) = snd (snd (loop env b stdin)) \<and>
   paste_blind (fst (snd (loop env a stdin))) = paste_blind (fst (snd (loop env b stdin)))"
proof (induction env a stdin arbitrary: b rule: loop.induct)
  case (1 env st stdin)
  have s: "paste_blind_result (step env st stdin) = paste_blind_result (step env b stdin)"
    using blind_step_eq [OF "1.prems"] .
  show ?case
  proof (cases "step env st stdin")
    case (Done res st' rest)
    with s obtain b' where "step env b stdin = Done res b' rest" "paste_blind st' = paste_blind b'"
      by (cases "step env b stdin") (simp_all add: paste_blind_result_def)
    with Done show ?thesis
      by (simp add: loop.simps [of env st stdin] loop.simps [of env b stdin])
  next
    case (Next st' rest)
    with s obtain b' where b: "step env b stdin = Next b' rest" "paste_blind st' = paste_blind b'"
      by (cases "step env b stdin") (simp_all add: paste_blind_result_def)
    from "1.IH" [OF Next b(2)] Next b(1) show ?thesis
      by (simp add: loop.simps [of env st stdin] loop.simps [of env b stdin])
  qed
qed


lemma blind_set_Pasting: "paste_blind (s\<lparr>inst := (inst s)\<lparr>Pasting := p\<rparr>\<rparr>) = paste_blind s"
  by (simp add: paste_blind_def)

lemma step_paste_marker:
  assumes "escex st"
  shows "step env st (CharBracketedPaste # a # b # c # rest) =
           Next (st\<lparr>escex := False, out := out st @ iteration_prints st,
                    inst := (inst st)\<lparr>Pasting :=
                      (if [a, b, c] = CharBracketedPasteStart then True
                       else if [a, b, c] = CharBracketedPasteEnd then False
                       else Pasting (inst st))\<rparr>\<rparr>) rest"
  using assms by (simp add: step_Cons Let_def escex_key_def key_defs)

lemma Readline_paste_blind:
  "fst (Readline env (i\<lparr>Pasting := p\<rparr>) stdin) = fst (Readline env i stdin) \<and>
   History (fst (snd (Readline env (i\<lparr>Pasting := p\<rparr>) stdin))) =
     History (fst (snd (Readline env i stdin))) \<and>
   fst (snd (snd (Readline env (i\<lparr>Pasting := p\<rparr>) stdin))) =
     fst (snd (snd (Readline env i stdin))) \<and>
   filter (\<lambda>e. \<not> prompt_or_placeholder e) (snd (snd (snd (Readline env (i\<lparr>Pasting := p\<rparr>) stdin)))) =
     filter (\<lambda>e. \<not> prompt_or_placeholder e) (snd (snd (snd (Readline env i stdin))))"
proof -
  have body: "fst (loop env a stdin) = fst (loop env b stdin) \<and>
      History (inst (fst (snd (loop env a stdin)))) = History (inst (fst (snd (loop env b stdin)))) \<and>
      snd (snd (loop env a stdin)) = snd (snd (loop env b stdin)) \<and>
      filter (\<lambda>e. \<not> prompt_or_placeholder e) (out (fst (snd (loop env a stdin)))) =
        filter (\<lambda>e. \<not> prompt_or_placeholder e) (out (fst (snd (loop env b stdin))))"
    if ab: "paste_blind a = paste_blind b" for a b
  proof -
    let ?x = "fst (snd (loop env a stdin))" and ?y = "fst (snd (loop env b stdin))"
    from blind_loop [OF ab, of env stdin] have
      r: "fst (loop env a stdin) = fst (loop env b stdin)"
        "snd (snd (loop env a stdin)) = snd (snd (loop env b stdin))"
      and e: "paste_blind ?x = paste_blind ?y"
      by simp_all
    from e have "inst (paste_blind ?x) = inst (paste_blind ?y)"
      and o: "out (paste_blind ?x) = out (paste_blind ?y)"
      by simp_all
    then have "History ((inst ?x)\<lparr>Pasting := False\<rparr>) = History ((inst ?y)\<lparr>Pasting := False\<rparr>)"
      by (simp add: paste_blind_fields)
    then have h: "History (inst ?x) = History (inst ?y)"
      by simp
    from r h o show ?thesis
      by (simp add: paste_blind_fields)
  qed
  have st: "paste_blind \<lparr>inst = j\<lparr>Pasting := p\<rparr>, buf = NewBuffer, esc = False, escex = False,
                metaDel = False, currentLineBuf = [], out = [PrintPrompt x]\<rparr> =
            paste_blind \<lparr>inst = j, buf = NewBuffer, esc = False, escex = False,
                metaDel = False, currentLineBuf = [], out = [PrintPrompt y]\<rparr>" for j x y
    by (simp add: paste_blind_def prompt_or_placeholder_def)
  show ?thesis
  proof (cases "rawmode (Terminal i)")
    case True
    with body [OF st [of i _ _]] show ?thesis
      by (simp add: Readline_def Let_def split_beta)
  next
    case False
    show ?thesis
    proof (cases "SetRawMode env")
      case (Inl err)
      with False show ?thesis by (simp add: Readline_def)
    next
      case (Inr t)
      have u: "i\<lparr>Pasting := p, Terminal := v\<rparr> = (i\<lparr>Terminal := v\<rparr>)\<lparr>Pasting := p\<rparr>" for v
        by simp
      from False Inr body [OF st [of "i\<lparr>Terminal := (Terminal i)\<lparr>rawmode := True, termios := Some t\<rparr>\<rparr>" _ _]]
      show ?thesis
        by (simp add: Readline_def Let_def split_beta u del: Instance.update_convs)
    qed
  qed
qed

text \<open>
  C4. In the extended-escape state the bracketed-paste introducer makes the iteration
  read exactly the next three code points and compare them with the two markers: the
  start marker sets paste mode, the end marker clears it, anything else leaves it as it
  is; nothing else in the state changes. Paste mode itself never reaches the text: from
  states (or instances) that differ only in the paste flag, the loop (and Readline)
  return the same result and leave the same input, the same line buffer and the same
  history, and what they write differs only in the prompt and the placeholder.
\<close>

theorem paste_mode_decoded:
  "(escex st \<longrightarrow>
      step env st (CharBracketedPaste # a # b # c # rest) =
        Next (st\<lparr>escex := False, out := out st @ iteration_prints st,
                 inst := (inst st)\<lparr>Pasting :=
                   (if [a, b, c] = CharBracketedPasteStart then True
                    else if [a, b, c] = CharBracketedPasteEnd then False
                    else Pasting (inst st))\<rparr>\<rparr>) rest) \<and>
   fst (loop env (st\<lparr>inst := (inst st)\<lparr>Pasting := p\<rparr>\<rparr>) stdin) = fst (loop env st stdin) \<and>
   snd (snd (loop env (st\<lparr>inst := (inst st)\<lparr>Pasting := p\<rparr>\<rparr>) stdin)) =
     snd (snd (loop env st stdin)) \<and>
   paste_blind (fst (snd (loop env (st\<lparr>inst := (inst st)\<lparr>Pasting := p\<rparr>\<rparr>) stdin))) =
     paste_blind (fst (snd (loop env st stdin))) \<and>
   fst (Readline env (i\<lparr>Pasting := p\<rparr>) stdin) = fst (Readline env i stdin) \<and>
   History (fst (snd (Readline env (i\<lparr>Pasting := p\<rparr>) stdin))) =
     History (fst (snd (Readline env i stdin))) \<and>
   fst (snd (snd (Readline env (i\<lparr>Pasting := p\<rparr>) stdin))) =
     fst (snd (snd (Readline env i stdin))) \<and>
   filter (\<lambda>e. \<not> prompt_or_placeholder e) (snd (snd (snd (Readline env (i\<lparr>Pasting := p\<rparr>) stdin)))) =
     filter (\<lambda>e. \<not> prompt_or_placeholder e) (snd (snd (snd (Readline env i stdin))))"
  using blind_loop [OF blind_set_Pasting [where s = st and p = p], of env stdin]
    step_paste_marker [of st env a b c rest] Readline_paste_blind [where env = env and i = i and p = p and stdin = stdin]
  by simp

theorem paste_mode_decoded_witness:
  "escex ((example_state [97])\<lparr>escex := True\<rparr>) \<and>
   step example_env ((example_state [97])\<lparr>escex := True\<rparr>) [CharBracketedPaste, 48, 48, 126, 120] =
     Next ((example_state [97])\<lparr>inst := example_instance\<lparr>Pasting := True\<rparr>\<rparr>) [120] \<and>
   fst (Readline example_env (example_instance\<lparr>Pasting := True\<rparr>) [104, CharEnter]) =
     fst (Readline example_env example_instance [104, CharEnter])"
  using paste_mode_decoded [where st = "(example_state [97])\<lparr>escex := True\<rparr>" and env = example_env
      and a = 48 and b = 48 and c = 126 and rest = "[120]" and i = example_instance and p = True
      and stdin = "[104, CharEnter]"]
  by (simp add: example_state_def key_defs iteration_prints_def Buffer_IsEmpty_def)

lemma plain_run:
  "\<not> esc st \<Longrightarrow> \<not> escex st \<Longrightarrow> \<forall>r \<in> set ps. printable r \<Longrightarrow>
   \<exists>st'. iterations (length ps) env st (ps @ rest) = Next st' rest \<and>
         \<not> esc st' \<and> \<not> escex st' \<and> inst st' = inst st"
proof (induction ps arbitrary: st)
  case Nil
  then show ?case by simp
next
  case (Cons r ps)
  from Cons.prems(3) have r: "32 \<le> r" "r \<noteq> 127"
    by (simp_all add: printable_def key_defs)
  define st1 where "st1 = st\<lparr>out := out st @ iteration_prints st\<rparr>"
  have nk: "normal_key env st1 r (ps @ rest) =
      (if metaDel st1 then Next (st1\<lparr>metaDel := False\<rparr>) (ps @ rest)
       else Next (st1\<lparr>buf := Buffer_Add r (buf st1)\<rparr>) (ps @ rest))"
    using r by (auto simp: normal_key_def key_defs)
  obtain st2 where s: "step env st (r # ps @ rest) = Next st2 (ps @ rest)"
      and f: "\<not> esc st2" "\<not> escex st2" "inst st2 = inst st"
    using Cons.prems(1,2) nk by (cases "metaDel st1") (simp_all add: step_Cons Let_def st1_def)
  from Cons.IH [OF f(1,2)] Cons.prems(3) obtain st' where
    "iterations (length ps) env st2 (ps @ rest) = Next st' rest"
    "\<not> esc st'" "\<not> escex st'" "inst st' = inst st2"
    by auto
  with s f(3) show ?case by simp
qed

lemma step_interrupt:
  assumes "\<not> esc st" and "\<not> escex st"
  shows "step env st (CharInterrupt # rest) =
           Done ([], Some ErrInterrupt) (st\<lparr>out := out st @ iteration_prints st\<rparr>) rest"
  using assms by (simp add: step_Cons Let_def normal_key_def key_defs)

lemma iterations_add:
  "iterations n env st stdin = Next st' rest \<Longrightarrow>
   iterations (n + m) env st stdin = iterations m env st' rest"
proof (induction n arbitrary: st stdin)
  case 0
  then show ?case by simp
next
  case (Suc n)
  then show ?case by (cases "step env st stdin") simp_all
qed

text \<open>
  C10. Paste mode does not switch the control codes off. With the decoder at rest, a
  bracketed-paste start marker, any pasted printable code points and then the interrupt
  code make the loop return the interrupt error at that code, in paste mode, with the
  rest of the input unread. In general an iteration in paste mode does what it does
  out of paste mode, up to the paste flag, the prompt and the placeholder.
\<close>

theorem interrupt_while_pasting:
  assumes "\<not> esc st" and "\<not> escex st" and "\<forall>r \<in> set pasted. printable r"
  shows "fst (loop env st ([CharEsc, CharEscapeEx, CharBracketedPaste] @ CharBracketedPasteStart @
                           pasted @ CharInterrupt # rest)) = ([], Some ErrInterrupt) \<and>
         snd (snd (loop env st ([CharEsc, CharEscapeEx, CharBracketedPaste] @
                           CharBracketedPasteStart @ pasted @ CharInterrupt # rest))) = rest \<and>
         Pasting (inst (fst (snd (loop env st ([CharEsc, CharEscapeEx, CharBracketedPaste] @
                           CharBracketedPasteStart @ pasted @ CharInterrupt # rest))))) \<and>
         (Pasting (inst st) \<longrightarrow>
            step env st (CharInterrupt # rest) =
              Done ([], Some ErrInterrupt) (st\<lparr>out := out st @ iteration_prints st\<rparr>) rest) \<and>
         paste_blind_result (step env st stdin) =
           paste_blind_result (step env (st\<lparr>inst := (inst st)\<lparr>Pasting := False\<rparr>\<rparr>) stdin)"
proof -
  let ?inp = "pasted @ CharInterrupt # rest"
  have n: "normal_key env s CharEsc xs = Next (s\<lparr>esc := True\<rparr>) xs" for s xs
    by (simp add: normal_key_def key_defs)
  have e1: "esc_key env s CharEscapeEx xs = Next (s\<lparr>escex := True\<rparr>) xs" for s xs
    by (simp add: esc_key_def key_defs)
  have m: "escex_key env s CharBracketedPaste (CharBracketedPasteStart @ xs) =
             Next (s\<lparr>inst := (inst s)\<lparr>Pasting := True\<rparr>\<rparr>) xs" for s xs
    by (simp add: escex_key_def key_defs)
  obtain st1 where i3: "iterations 3 env st ([CharEsc, CharEscapeEx, CharBracketedPaste] @
        CharBracketedPasteStart @ ?inp) = Next st1 ?inp"
      and f1: "\<not> esc st1" "\<not> escex st1" "Pasting (inst st1)"
    using assms(1,2) by (simp add: numeral_3_eq_3 step_Cons Let_def n e1 m)
  from plain_run [OF f1(1,2) assms(3), of env "CharInterrupt # rest"] obtain st2 where
    ip: "iterations (length pasted) env st1 ?inp = Next st2 (CharInterrupt # rest)"
    and f2: "\<not> esc st2" "\<not> escex st2" "inst st2 = inst st1"
    by auto
  have "iterations (3 + length pasted + 1) env st ([CharEsc, CharEscapeEx, CharBracketedPaste] @
        CharBracketedPasteStart @ ?inp) =
        Done ([], Some ErrInterrupt) (st2\<lparr>out := out st2 @ iteration_prints st2\<rparr>) rest"
    using iterations_add [OF i3, of "length pasted + 1"] iterations_add [OF ip, of 1]
      step_interrupt [OF f2(1,2), of env rest]
    by (simp add: add.assoc)
  then have l: "loop env st ([CharEsc, CharEscapeEx, CharBracketedPaste] @
        CharBracketedPasteStart @ ?inp) =
        (([], Some ErrInterrupt), st2\<lparr>out := out st2 @ iteration_prints st2\<rparr>, rest)"
    using loop_iterations [of env st _ "3 + length pasted + 1"] by (simp add: finish_def)
  have b: "paste_blind_result (step env st stdin) =
           paste_blind_result (step env (st\<lparr>inst := (inst st)\<lparr>Pasting := False\<rparr>\<rparr>) stdin)"
    using blind_step_eq [OF blind_set_Pasting [where s = st and p = False, symmetric], of env stdin] .
  show ?thesis
    using l f2(3) f1(3) b step_interrupt [OF assms(1,2), of env rest] by simp
qed

theorem interrupt_while_pasting_witness:
  "\<not> esc (example_state []) \<and> \<not> escex (example_state []) \<and> printable 104 \<and> printable 105 \<and>
   fst (loop example_env (example_state [])
      ([CharEsc, CharEscapeEx, CharBracketedPaste] @ CharBracketedPasteStart @
       [104, 105] @ CharInterrupt # [120])) = ([], Some ErrInterrupt) \<and>
   snd (snd (loop example_env (example_state [])
      ([CharEsc, CharEscapeEx, CharBracketedPaste] @ CharBracketedPasteStart @
       [104, 105] @ CharInterrupt # [120]))) = [120] \<and>
   Pasting (inst (fst (snd (loop example_env (example_state [])
      ([CharEsc, CharEscapeEx, CharBracketedPaste] @ CharBracketedPasteStart @
       [104, 105] @ CharInterrupt # [120])))))"
proof -
  have p: "printable 104" "printable 105"
    by (simp_all add: printable_def key_defs)
  have f: "\<not> esc (example_state [])" "\<not> escex (example_state [])"
    by (simp_all add: example_state_def)
  have a: "\<forall>r \<in> set [104, 105]. printable r"
    using p by simp
  show ?thesis
    using interrupt_while_pasting [OF f a, of example_env "[120]"] p f by simp
qed

subsection \<open>End of input\<close>

lemma escex_key_EOF:
  "returns_EOF (escex_key env s r rest) \<longleftrightarrow> r = CharBracketedPaste \<and> length rest < 3"
proof (cases "r = CharBracketedPaste")
  case True
  show ?thesis
  proof (cases rest)
    case Nil
    with True show ?thesis by (simp add: escex_key_def returns_EOF_def key_defs)
  next
    case c1: (Cons a r1)
    show ?thesis
    proof (cases r1)
      case Nil
      with True c1 show ?thesis by (simp add: escex_key_def returns_EOF_def key_defs)
    next
      case c2: (Cons b r2)
      show ?thesis
      proof (cases r2)
        case Nil
        with True c1 c2 show ?thesis by (simp add: escex_key_def returns_EOF_def key_defs)
      next
        case (Cons c r3)
        with True c1 c2 show ?thesis by (simp add: escex_key_def returns_EOF_def key_defs)
      qed
    qed
  qed
next
  case False
  then show ?thesis by (simp add: escex_key_def returns_EOF_def)
qed

lemma esc_key_EOF: "\<not> returns_EOF (esc_key env s r rest)"
  by (simp add: esc_key_def returns_EOF_def)

lemma normal_key_EOF:
  assumes "snd (handleCharCtrlZ env) \<noteq> Some EOF"
  shows "returns_EOF (normal_key env s r rest) \<longleftrightarrow>
           r = CharDelete \<and> Buffer_DisplaySize env (buf s) = 0"
  using assms by (simp add: normal_key_def returns_EOF_def split_beta Let_def key_defs)


lemma DisplaySize_empty: "Buffer_IsEmpty b \<Longrightarrow> Buffer_DisplaySize env b = 0"
  by (simp add: Buffer_IsEmpty_def Buffer_DisplaySize_def)

text \<open>
  C5 (as amended). Provided the suspend handler does not itself return the end-of-input
  error, an iteration returns that error in exactly these situations: a read fails
  (the input is closed at the start of the iteration or within the three code points
  after the bracketed-paste introducer), or the forward-delete code arrives with the
  decoder at rest while the display width of the line is zero. On a line of positive
  display width the forward-delete code deletes at the cursor and the loop goes on. The
  empty line has display width zero.
\<close>

theorem end_of_input_cases:
  assumes "snd (handleCharCtrlZ env) \<noteq> Some EOF"
  shows "(returns_EOF (step env st stdin) \<longleftrightarrow>
            stdin = [] \<or>
            (escex st \<and> hd stdin = CharBracketedPaste \<and> length stdin < 4) \<or>
            (\<not> escex st \<and> \<not> esc st \<and> stdin \<noteq> [] \<and> hd stdin = CharDelete \<and>
               Buffer_DisplaySize env (buf st) = 0)) \<and>
         (\<not> escex st \<and> \<not> esc st \<and> 0 < Buffer_DisplaySize env (buf st) \<longrightarrow>
            step env st (CharDelete # rest) =
              Next (st\<lparr>out := out st @ iteration_prints st, buf := Buffer_Delete (buf st)\<rparr>) rest) \<and>
         (Buffer_IsEmpty (buf st) \<longrightarrow> Buffer_DisplaySize env (buf st) = 0)"
proof -
  have a: "returns_EOF (step env st stdin) \<longleftrightarrow>
            stdin = [] \<or>
            (escex st \<and> hd stdin = CharBracketedPaste \<and> length stdin < 4) \<or>
            (\<not> escex st \<and> \<not> esc st \<and> stdin \<noteq> [] \<and> hd stdin = CharDelete \<and>
               Buffer_DisplaySize env (buf st) = 0)"
  proof (cases stdin)
    case Nil
    then show ?thesis by (simp add: step_Nil returns_EOF_def)
  next
    case (Cons r rs)
    then show ?thesis
      by (auto simp: step_Cons Let_def escex_key_EOF esc_key_EOF normal_key_EOF [OF assms])
  qed
  have b: "\<not> escex st \<and> \<not> esc st \<and> 0 < Buffer_DisplaySize env (buf st) \<longrightarrow>
            step env st (CharDelete # rest) =
              Next (st\<lparr>out := out st @ iteration_prints st, buf := Buffer_Delete (buf st)\<rparr>) rest"
    by (simp add: step_Cons Let_def normal_key_def key_defs)
  show ?thesis
    using a b DisplaySize_empty [of "buf st" env] by blast
qed

theorem end_of_input_cases_witness:
  "snd (handleCharCtrlZ example_env) \<noteq> Some EOF \<and>
   returns_EOF (step example_env (example_state []) [CharDelete, 120]) \<and>
   \<not> returns_EOF (step example_env (example_state [97]) [CharDelete, 120]) \<and>
   step example_env ((example_state [97])\<lparr>buf := \<lparr>Buf = [97], Pos = 0\<rparr>\<rparr>) [CharDelete, 120] =
     Next ((example_state [97])\<lparr>buf := \<lparr>Buf = [], Pos = 0\<rparr>\<rparr>) [120]"
proof -
  have z: "snd (handleCharCtrlZ example_env) \<noteq> Some EOF"
    by (simp add: example_env_def)
  have d0: "Buffer_DisplaySize example_env (buf (example_state [])) = 0"
    and d1: "Buffer_DisplaySize example_env (buf (example_state [97])) = 1"
    and d2: "Buffer_DisplaySize example_env
               (buf ((example_state [97])\<lparr>buf := \<lparr>Buf = [97], Pos = 0\<rparr>\<rparr>)) = 1"
    by (simp_all add: Buffer_DisplaySize_def example_env_def example_state_def)
  have f: "\<not> esc (example_state t)" "\<not> escex (example_state t)" for t
    by (simp_all add: example_state_def)
  have e: "returns_EOF (step example_env (example_state []) [CharDelete, 120])"
    using end_of_input_cases [OF z, where st = "example_state []" and stdin = "[CharDelete, 120]"]
      d0 f
    by simp
  have ne: "\<not> returns_EOF (step example_env (example_state [97]) [CharDelete, 120])"
    using end_of_input_cases [OF z, where st = "example_state [97]" and stdin = "[CharDelete, 120]"]
      d1 f
    by (simp add: returns_EOF_def)
  have n: "step example_env ((example_state [97])\<lparr>buf := \<lparr>Buf = [97], Pos = 0\<rparr>\<rparr>) [CharDelete, 120] =
     Next ((example_state [97])\<lparr>buf := \<lparr>Buf = [], Pos = 0\<rparr>\<rparr>) [120]"
    using end_of_input_cases [OF z,
        where st = "(example_state [97])\<lparr>buf := \<lparr>Buf = [97], Pos = 0\<rparr>\<rparr>" and rest = "[120]"] d2
    by (simp add: example_state_def iteration_prints_def Buffer_IsEmpty_def Buffer_Delete_def)
  show ?thesis
    using z e ne n by simp
qed

text \<open>
  The claim as stated fails on a line that is not empty but has display width zero: on
  a terminal where U+200B occupies no column, the forward-delete code on the line that
  holds just this code point, with the cursor on it, returns the end-of-input error and
  deletes nothing.
\<close>

theorem forward_delete_zero_width_counterexample:
  "\<not> Buffer_IsEmpty \<lparr>Buf = [8203], Pos = 0\<rparr> \<and>
   step zero_width_env ((example_state [])\<lparr>buf := \<lparr>Buf = [8203], Pos = 0\<rparr>\<rparr>) [CharDelete, 120] =
     Done ([], Some EOF) ((example_state [])\<lparr>buf := \<lparr>Buf = [8203], Pos = 0\<rparr>\<rparr>) [120]"
  by (simp add: step_Cons Let_def normal_key_def key_defs example_state_def zero_width_env_def
      example_env_def Buffer_DisplaySize_def Buffer_IsEmpty_def iteration_prints_def)


subsection \<open>The delete key\<close>

lemma metaDel_history:
  "historyPrev (s\<lparr>metaDel := m\<rparr>) = (historyPrev s)\<lparr>metaDel := m\<rparr>"
  "historyNext (s\<lparr>metaDel := m\<rparr>) = (historyNext s)\<lparr>metaDel := m\<rparr>"
  by (simp_all add: historyPrev_def historyNext_def Let_def split_beta)

lemma metaDel_escex_key:
  "r \<noteq> KeyDel \<Longrightarrow>
   escex_key env (s\<lparr>metaDel := m\<rparr>) r rest = with_metaDel m (escex_key env s r rest)"
  by (simp add: escex_key_def with_metaDel_def metaDel_history Let_def split: list.split)

lemma metaDel_esc_key:
  "esc_key env (s\<lparr>metaDel := m\<rparr>) r rest = with_metaDel m (esc_key env s r rest)"
  by (simp add: esc_key_def with_metaDel_def)

lemma metaDel_normal_key:
  "is_command r \<Longrightarrow>
   normal_key env (s\<lparr>metaDel := m\<rparr>) r rest = with_metaDel m (normal_key env s r rest)"
  by (auto simp: normal_key_def with_metaDel_def metaDel_history is_command_def Let_def split_beta)

lemma metaDel_step:
  assumes "(escex st \<and> r \<noteq> KeyDel) \<or> (\<not> escex st \<and> esc st) \<or>
           (\<not> escex st \<and> \<not> esc st \<and> is_command r)"
  shows "step env st (r # rest) =
           with_metaDel (metaDel st) (step env (st\<lparr>metaDel := False\<rparr>) (r # rest))"
proof -
  define s0 where "s0 = st\<lparr>out := out st @ iteration_prints st, metaDel := False\<rparr>"
  have ip: "iteration_prints (st\<lparr>metaDel := False\<rparr>) = iteration_prints st"
    by (simp add: iteration_prints_def showPlaceholder_def)
  have a: "st\<lparr>out := out st @ iteration_prints st\<rparr> = s0\<lparr>metaDel := metaDel st\<rparr>"
    by (simp add: s0_def)
  have b: "st\<lparr>metaDel := False, out := out st @ iteration_prints st\<rparr> = s0"
    by (simp add: s0_def)
  have c: "s0\<lparr>metaDel := m, escex := False\<rparr> = (s0\<lparr>escex := False\<rparr>)\<lparr>metaDel := m\<rparr>"
       "s0\<lparr>metaDel := m, esc := False\<rparr> = (s0\<lparr>esc := False\<rparr>)\<lparr>metaDel := m\<rparr>" for m
    by simp_all
  have l: "step env st (r # rest) =
      (if escex st then escex_key env ((s0\<lparr>escex := False\<rparr>)\<lparr>metaDel := metaDel st\<rparr>) r rest
       else if esc st then esc_key env ((s0\<lparr>esc := False\<rparr>)\<lparr>metaDel := metaDel st\<rparr>) r rest
       else normal_key env (s0\<lparr>metaDel := metaDel st\<rparr>) r rest)"
    unfolding step_Cons Let_def a c ..
  have r: "step env (st\<lparr>metaDel := False\<rparr>) (r # rest) =
      (if escex st then escex_key env (s0\<lparr>escex := False\<rparr>) r rest
       else if esc st then esc_key env (s0\<lparr>esc := False\<rparr>) r rest
       else normal_key env s0 r rest)"
    by (simp add: step_Cons Let_def ip b)
  show ?thesis
    using assms
    by (auto simp: l r metaDel_escex_key metaDel_esc_key metaDel_normal_key)
qed

text \<open>
  C8 (as amended). In the extended-escape state the delete key deletes at the cursor
  if the display width of the line is positive, and arms the flag \<^verbatim>\<open>metaDel\<close>. With
  the decoder at rest and the flag armed, a code point that is no command code is
  swallowed and clears the flag; with the flag clear a printable code point is
  inserted. A command code with the decoder at rest, and any code point in the escape
  states other than the delete key, does exactly what it does with the flag clear and
  leaves the flag as it is.
\<close>

theorem meta_delete_suppression:
  "(escex st \<longrightarrow>
      step env st (KeyDel # rest) =
        Next (st\<lparr>escex := False, out := out st @ iteration_prints st,
                 buf := (if 0 < Buffer_DisplaySize env (buf st) then Buffer_Delete (buf st)
                         else buf st),
                 metaDel := True\<rparr>) rest) \<and>
   (\<not> esc st \<and> \<not> escex st \<and> metaDel st \<and> \<not> is_command r \<longrightarrow>
      step env st (r # rest) =
        Next (st\<lparr>out := out st @ iteration_prints st, metaDel := False\<rparr>) rest) \<and>
   (\<not> esc st \<and> \<not> escex st \<and> \<not> metaDel st \<and> printable r \<longrightarrow>
      step env st (r # rest) =
        Next (st\<lparr>out := out st @ iteration_prints st, buf := Buffer_Add r (buf st)\<rparr>) rest) \<and>
   (\<not> esc st \<and> \<not> escex st \<and> is_command r \<and> step env st (r # rest) = Next st' rest' \<longrightarrow>
      metaDel st' = metaDel st) \<and>
   ((escex st \<and> r \<noteq> KeyDel) \<or> (\<not> escex st \<and> esc st) \<or>
    (\<not> escex st \<and> \<not> esc st \<and> is_command r) \<longrightarrow>
      step env st (r # rest) =
        with_metaDel (metaDel st) (step env (st\<lparr>metaDel := False\<rparr>) (r # rest)))"
proof -
  have a: "escex st \<longrightarrow>
      step env st (KeyDel # rest) =
        Next (st\<lparr>escex := False, out := out st @ iteration_prints st,
                 buf := (if 0 < Buffer_DisplaySize env (buf st) then Buffer_Delete (buf st)
                         else buf st),
                 metaDel := True\<rparr>) rest"
    by (simp add: step_Cons Let_def escex_key_def key_defs)
  have b: "\<not> esc st \<and> \<not> escex st \<and> metaDel st \<and> \<not> is_command r \<longrightarrow>
      step env st (r # rest) =
        Next (st\<lparr>out := out st @ iteration_prints st, metaDel := False\<rparr>) rest"
    by (simp add: step_Cons Let_def normal_key_def is_command_def)
  have c: "\<not> esc st \<and> \<not> escex st \<and> \<not> metaDel st \<and> printable r \<longrightarrow>
      step env st (r # rest) =
        Next (st\<lparr>out := out st @ iteration_prints st, buf := Buffer_Add r (buf st)\<rparr>) rest"
    by (auto simp: step_Cons Let_def normal_key_def printable_def key_defs)
  have d: "\<not> esc st \<and> \<not> escex st \<and> is_command r \<and> step env st (r # rest) = Next st' rest' \<longrightarrow>
      metaDel st' = metaDel st"
  proof (intro impI, elim conjE)
    assume f: "\<not> esc st" "\<not> escex st" and k: "is_command r"
      and s: "step env st (r # rest) = Next st' rest'"
    have hp: "metaDel (historyPrev x) = metaDel x" "metaDel (historyNext x) = metaDel x" for x
      by (simp_all add: historyPrev_def historyNext_def Let_def split_beta)
    from s f have "normal_key env (st\<lparr>out := out st @ iteration_prints st\<rparr>) r rest = Next st' rest'"
      by (simp add: step_Cons Let_def)
    with k show "metaDel st' = metaDel st"
      by (auto simp: normal_key_def is_command_def hp Let_def split_beta split: if_splits)
  qed
  have e: "(escex st \<and> r \<noteq> KeyDel) \<or> (\<not> escex st \<and> esc st) \<or>
      (\<not> escex st \<and> \<not> esc st \<and> is_command r) \<longrightarrow>
      step env st (r # rest) =
        with_metaDel (metaDel st) (step env (st\<lparr>metaDel := False\<rparr>) (r # rest))"
    using metaDel_step [of st r env rest] by blast
  show ?thesis
    using a b c d e by blast
qed


theorem meta_delete_suppression_witness:
  "escex ((example_state [97, 98])\<lparr>buf := \<lparr>Buf = [97, 98], Pos = 0\<rparr>, escex := True\<rparr>) \<and>
   step example_env ((example_state [97, 98])\<lparr>buf := \<lparr>Buf = [97, 98], Pos = 0\<rparr>, escex := True\<rparr>)
       [KeyDel, 126, 120] =
     Next ((example_state [97, 98])\<lparr>buf := \<lparr>Buf = [98], Pos = 0\<rparr>, metaDel := True\<rparr>) [126, 120] \<and>
   step example_env ((example_state [97, 98])\<lparr>buf := \<lparr>Buf = [98], Pos = 0\<rparr>, metaDel := True\<rparr>)
       [126, 120] =
     Next ((example_state [97, 98])\<lparr>buf := \<lparr>Buf = [98], Pos = 0\<rparr>\<rparr>) [120] \<and>
   step example_env ((example_state [97, 98])\<lparr>buf := \<lparr>Buf = [98], Pos = 0\<rparr>\<rparr>) [120] =
     Next ((example_state [97, 98])\<lparr>buf := \<lparr>Buf = [120, 98], Pos = 1\<rparr>\<rparr>) [] \<and>
   is_command CharLineStart \<and>
   step example_env ((example_state [97, 98])\<lparr>metaDel := True\<rparr>) [CharLineStart, 120] =
     Next ((example_state [97, 98])\<lparr>buf := \<lparr>Buf = [97, 98], Pos = 0\<rparr>, metaDel := True\<rparr>) [120]"
proof -
  have k: "\<not> is_command 126" "printable 120" "is_command CharLineStart"
    by (simp_all add: is_command_def printable_def key_defs)
  have u: "step example_env (example_state [97, 98]) [CharLineStart, 120] =
     Next ((example_state [97, 98])\<lparr>buf := \<lparr>Buf = [97, 98], Pos = 0\<rparr>\<rparr>) [120]"
    by (simp add: step_Cons Let_def normal_key_def key_defs example_state_def
        iteration_prints_def Buffer_IsEmpty_def Buffer_MoveToStart_def)
  have e: "step example_env ((example_state [97, 98])\<lparr>metaDel := True\<rparr>) [CharLineStart, 120] =
     Next ((example_state [97, 98])\<lparr>buf := \<lparr>Buf = [97, 98], Pos = 0\<rparr>, metaDel := True\<rparr>) [120]"
  proof -
    have f: "\<not> escex ((example_state [97, 98])\<lparr>metaDel := True\<rparr>)"
        "\<not> esc ((example_state [97, 98])\<lparr>metaDel := True\<rparr>)"
        "metaDel ((example_state [97, 98])\<lparr>metaDel := True\<rparr>)"
        "(example_state [97, 98])\<lparr>metaDel := True, metaDel := False\<rparr> = example_state [97, 98]"
      by (simp_all add: example_state_def)
    from meta_delete_suppression [where env = example_env and rest = "[120]" and r = CharLineStart
        and st = "(example_state [97, 98])\<lparr>metaDel := True\<rparr>"]
    have "step example_env ((example_state [97, 98])\<lparr>metaDel := True\<rparr>) [CharLineStart, 120] =
        with_metaDel True (step example_env (example_state [97, 98]) [CharLineStart, 120])"
      using k(3) f by simp
    then show ?thesis
      by (simp add: u with_metaDel_def)
  qed
  have d: "Buffer_DisplaySize example_env \<lparr>Buf = [97, 98], Pos = 0\<rparr> = 2"
    by (simp add: Buffer_DisplaySize_def example_env_def)
  have a: "step example_env
       ((example_state [97, 98])\<lparr>buf := \<lparr>Buf = [97, 98], Pos = 0\<rparr>, escex := True\<rparr>)
       [KeyDel, 126, 120] =
     Next ((example_state [97, 98])\<lparr>buf := \<lparr>Buf = [98], Pos = 0\<rparr>, metaDel := True\<rparr>) [126, 120]"
    using meta_delete_suppression [where env = example_env and rest = "[126, 120]"
        and st = "(example_state [97, 98])\<lparr>buf := \<lparr>Buf = [97, 98], Pos = 0\<rparr>, escex := True\<rparr>"]
    by (simp add: d example_state_def iteration_prints_def Buffer_IsEmpty_def Buffer_Delete_def)
  have b: "step example_env
       ((example_state [97, 98])\<lparr>buf := \<lparr>Buf = [98], Pos = 0\<rparr>, metaDel := True\<rparr>) [126, 120] =
     Next ((example_state [97, 98])\<lparr>buf := \<lparr>Buf = [98], Pos = 0\<rparr>\<rparr>) [120]"
    using meta_delete_suppression [where env = example_env and rest = "[120]" and r = 126
        and st = "(example_state [97, 98])\<lparr>buf := \<lparr>Buf = [98], Pos = 0\<rparr>, metaDel := True\<rparr>"] k
    by (simp add: example_state_def iteration_prints_def Buffer_IsEmpty_def)
  have c: "step example_env ((example_state [97, 98])\<lparr>buf := \<lparr>Buf = [98], Pos = 0\<rparr>\<rparr>) [120] =
     Next ((example_state [97, 98])\<lparr>buf := \<lparr>Buf = [120, 98], Pos = 1\<rparr>\<rparr>) []"
    using meta_delete_suppression [where env = example_env and rest = "[]" and r = 120
        and st = "(example_state [97, 98])\<lparr>buf := \<lparr>Buf = [98], Pos = 0\<rparr>\<rparr>"] k
    by (simp add: example_state_def iteration_prints_def Buffer_IsEmpty_def Buffer_Add_def)
  show ?thesis
    using a b c e k(3) by (simp add: example_state_def)
qed

text \<open>
  The claim as stated fails when a command code follows the delete key: after
  \<open>ESC [ 3\<close>, Ctrl+A and \<open>x\<close> on the line \<open>ab\<close>, Ctrl+A has moved the cursor to the
  start (it was not swallowed) and \<open>x\<close>, the second key after the delete, has been
  swallowed (it was not inserted).
\<close>

theorem meta_delete_counterexample:
  "iterations 5 example_env (example_state [97, 98])
       [CharEsc, CharEscapeEx, KeyDel, CharLineStart, 120] =
     Next ((example_state [97, 98])\<lparr>buf := \<lparr>Buf = [97, 98], Pos = 0\<rparr>\<rparr>) []"
  by (simp add: eval_nat_numeral step_Cons Let_def normal_key_def esc_key_def escex_key_def
      key_defs example_state_def example_env_def iteration_prints_def Buffer_IsEmpty_def
      Buffer_DisplaySize_def Buffer_Delete_def Buffer_MoveToStart_def)

end
